theory Spec2Isabelle
  imports Complex_Main
begin

section \<open>Geofence attendance engine (lib/geofence.ts)\<close>

text \<open>
  A shallow embedding of the background geofencing task of lib/geofence.ts: the persisted
  active-event context, the debounce marker, the idempotency key, delivery to the server
  and the handler that ties them together.

  Conventions of the model.
  \<^item> A JavaScript string is a \<open>string\<close>; every character is read as one code unit
    in the range U+0000 to U+00FF.
  \<^item> \<open>null\<close> and \<open>undefined\<close> are \<open>None\<close>.
  \<^item> An \<open>await\<close>ed call that may reject is a function with an explicit outcome; a
    \<open>try\<close>/\<open>catch\<close> is a case distinction on that outcome.
  \<^item> The functions of the runtime that the module calls (\<open>Date.parse\<close>,
    \<open>Date.prototype.toISOString\<close>, \<open>JSON.parse\<close>, \<open>JSON.stringify\<close>,
    \<open>String\<close> on a value that is not a string, the SHA-256 digest) are parameters,
    collected in the record \<open>platform\<close>.
  \<^item> Times are integer milliseconds since the epoch, as \<open>Date.now()\<close> returns them.
    Each operation reads the clock once; the task passes one reading to each of
    \<open>shouldDebounce\<close>, \<open>nowIso\<close> and \<open>getActiveEventId\<close>.
  \<^item> Arithmetic on times is exact. The doubles of JavaScript agree with it on the
    divisions by 1000 and by 30 for the instants of this century.
  \<^item> A storage call that throws changes nothing. The digest always resolves.
\<close>

subsection \<open>Constants\<close>

definition GEOFENCE_TASK :: string where
  "GEOFENCE_TASK = ''rta-geofence''"

definition ACTIVE_EVENT_KEY :: string where
  "ACTIVE_EVENT_KEY = ''@rta.active_event_id''"

definition ACTIVE_EVENT_META_KEY :: string where
  "ACTIVE_EVENT_META_KEY = ''@rta.active_event_meta_v1''"

definition LAST_EVENT_KEY :: string where
  "LAST_EVENT_KEY = ''@rta.geo.last.v1''"

definition DEBOUNCE_SEC :: int where
  "DEBOUNCE_SEC = 30"

definition GEOFENCE_DEBUG_NOTI :: bool where
  "GEOFENCE_DEBUG_NOTI = True"

subsection \<open>Data\<close>

datatype direction = ENTER | EXIT

fun dir_text :: "direction \<Rightarrow> string" where
  "dir_text ENTER = ''ENTER''"
| "dir_text EXIT = ''EXIT''"

text \<open>
  \<open>GeoEventPayload\<close> is declared in lib/syncQueue.ts; its fields are the ones the handler
  fills in and \<open>postToServer\<close> reads. The field \<open>at\<close> is \<open>at_iso\<close> here.
\<close>

record payload =
  event_id :: string
  dir :: direction
  at_iso :: string
  region_id :: "string option"
  acc_m :: "real option"
  device :: "string option"
  idem :: string

text \<open>The type \<open>ActiveEventMeta\<close>.\<close>

record active_event_meta =
  meta_event_id :: string
  active_event_end_utc :: "string option"
  saved_at :: string

text \<open>A value as \<open>JSON.parse\<close> returns it. An object lists its properties, each name once.\<close>

datatype json =
    JNull
  | JBool bool
  | JNum real
  | JStr string
  | JArr "json list"
  | JObj "(string \<times> json) list"

record platform =
  Date_parse :: "string \<Rightarrow> int option"
  toISOString :: "int \<Rightarrow> string"
  JSON_parse :: "string \<Rightarrow> json option"
  JSON_stringify :: "json \<Rightarrow> string"
  String_other :: "json \<Rightarrow> string"
  digestSHA256 :: "string \<Rightarrow> string"

text \<open>
  \<open>Date_parse\<close> is \<open>None\<close> where \<open>Date.parse\<close> is \<open>NaN\<close>; \<open>JSON_parse\<close> is
  \<open>None\<close> where \<open>JSON.parse\<close> throws.
\<close>

subsection \<open>JavaScript helpers\<close>

text \<open>
  The white space and line terminators that \<open>String.prototype.trim\<close> removes, among
  the code units of the model: TAB, LF, VT, FF, CR, SP and NBSP.
\<close>

definition is_ws :: "char \<Rightarrow> bool" where
  "is_ws c = (c \<in> set [CHR 0x09, CHR 0x0A, CHR 0x0B, CHR 0x0C, CHR 0x0D, CHR 0x20, CHR 0xA0])"

definition trim :: "string \<Rightarrow> string" where
  "trim s = rev (dropWhile is_ws (rev (dropWhile is_ws s)))"

text \<open>Truthiness of a parsed value: \<open>null\<close>, \<open>false\<close>, \<open>0\<close> and \<open>""\<close> are falsy.\<close>

fun truthy :: "json \<Rightarrow> bool" where
  "truthy JNull = False"
| "truthy (JBool b) = b"
| "truthy (JNum x) = (x \<noteq> 0)"
| "truthy (JStr s) = (s \<noteq> [])"
| "truthy (JArr xs) = True"
| "truthy (JObj fs) = True"

text \<open>\<open>typeof v === "object"\<close> for a truthy parsed value.\<close>

fun is_object :: "json \<Rightarrow> bool" where
  "is_object (JArr xs) = True"
| "is_object (JObj fs) = True"
| "is_object v = False"

text \<open>
  Reading a named property; \<open>None\<close> is \<open>undefined\<close>. The names read here
  (\<open>event_id\<close>, \<open>dir\<close>, \<open>at\<close>, ...) are own properties of objects only.
\<close>

fun property :: "json \<Rightarrow> string \<Rightarrow> json option" where
  "property (JObj fs) k = map_of fs k"
| "property v k = None"

text \<open>\<open>String(v)\<close> for a parsed value, and for \<open>undefined\<close>.\<close>

fun String_of :: "platform \<Rightarrow> json \<Rightarrow> string" where
  "String_of P (JStr s) = s"
| "String_of P JNull = ''null''"
| "String_of P v = String_other P v"

fun String_of_opt :: "platform \<Rightarrow> json option \<Rightarrow> string" where
  "String_of_opt P None = ''undefined''"
| "String_of_opt P (Some v) = String_of P v"

text \<open>\<open>v == null\<close>: the value is \<open>null\<close> or \<open>undefined\<close>.\<close>

fun nullish :: "json option \<Rightarrow> bool" where
  "nullish None = True"
| "nullish (Some JNull) = True"
| "nullish (Some v) = False"

subsection \<open>Delivery to the server: \<open>postToServer\<close>\<close>

text \<open>
  The reasons for which a call to the backend can fail. The code never looks at the reason;
  the names are those of the specification.
\<close>

datatype failure =
    ProcedureUnavailable
  | TransientNetwork
  | Timeout
  | AuthFailure
  | MalformedResponse
  | InsertRejected

text \<open>
  What an awaited supabase call does: it resolves to a response whose \<open>error\<close> field is
  empty or set, or it rejects.
\<close>

datatype response = Resolved "failure option" | Rejected

datatype request = Rpc_geofence_log payload | Insert_geofence_events payload

text \<open>
  The backend answers a request knowing the requests sent before it. The log of requests,
  oldest first, is the effect of the module on the server.
\<close>

record server =
  rpc :: "request list \<Rightarrow> payload \<Rightarrow> response"
  insert_row :: "request list \<Rightarrow> payload \<Rightarrow> response"

definition postToServer :: "server \<Rightarrow> request list \<Rightarrow> payload \<Rightarrow> bool \<times> request list" where
  "postToServer S net p =
     (let net1 = net @ [Rpc_geofence_log p] in
      case rpc S net p of
        Rejected \<Rightarrow> (False, net1)
      | Resolved None \<Rightarrow> (True, net1)
      | Resolved (Some e) \<Rightarrow>
          (let net2 = net1 @ [Insert_geofence_events p] in
           case insert_row S net1 p of
             Rejected \<Rightarrow> (False, net2)
           | Resolved None \<Rightarrow> (True, net2)
           | Resolved (Some e') \<Rightarrow> (False, net2)))"

subsection \<open>The world the module acts on\<close>

text \<open>
  \<open>AsyncStorage\<close> is a map from keys to strings. The geofencing registration of the task
  is a flag. The offline queue of lib/syncQueue.ts is the list of its records, oldest
  first. The requests sent to the backend and the calls of \<open>notify\<close> are logged, oldest
  first.
\<close>

datatype notification =
    Task_error string
  | Transition direction string "string option"

record world =
  storage :: "string \<rightharpoonup> string"
  geofencing_started :: bool
  queue :: "payload list"
  network :: "request list"
  notified :: "notification list"

text \<open>
  Which calls fail during one run of an operation. Each operation touches a storage key
  at most once per kind of access. A call that fails leaves the world as it is.
\<close>

record faults =
  getItem_throws :: "string \<Rightarrow> bool"
  setItem_throws :: "string \<Rightarrow> bool"
  removeItem_throws :: "string \<Rightarrow> bool"
  hasStartedGeofencing_rejects :: bool
  stopGeofencing_rejects :: bool

text \<open>\<open>try { await AsyncStorage.removeItem(k) } catch {}\<close>\<close>

definition try_removeItem :: "faults \<Rightarrow> string \<Rightarrow> world \<Rightarrow> world" where
  "try_removeItem F k w =
     (if removeItem_throws F k then w else w\<lparr>storage := (storage w)(k := None)\<rparr>)"

text \<open>\<open>try { await AsyncStorage.setItem(k, v) } catch {}\<close>\<close>

definition try_setItem :: "faults \<Rightarrow> string \<Rightarrow> string \<Rightarrow> world \<Rightarrow> world" where
  "try_setItem F k v w =
     (if setItem_throws F k then w else w\<lparr>storage := (storage w)(k \<mapsto> v)\<rparr>)"

subsection \<open>The active-event context\<close>

definition safeIsoNow :: "platform \<Rightarrow> int \<Rightarrow> string" where
  "safeIsoNow P now = toISOString P now"

definition parseUtcMs :: "platform \<Rightarrow> string option \<Rightarrow> int option" where
  "parseUtcMs P iso_str =
     (case iso_str of
        None \<Rightarrow> None
      | Some s \<Rightarrow> if s = [] then None else Date_parse P s)"

definition safeStopGeofencingIfStarted :: "faults \<Rightarrow> world \<Rightarrow> world" where
  "safeStopGeofencingIfStarted F w =
     (let started = (if hasStartedGeofencing_rejects F then False else geofencing_started w)
      in if started \<and> \<not> stopGeofencing_rejects F
         then w\<lparr>geofencing_started := False\<rparr> else w)"

text \<open>The argument of \<open>setActiveEventMeta\<close>, with its fields \<open>eventId\<close> and \<open>endUtc\<close>.\<close>

record meta_arg =
  m_eventId :: string
  m_endUtc :: "string option"

definition meta_json :: "active_event_meta \<Rightarrow> json" where
  "meta_json m =
     JObj [(''event_id'', JStr (meta_event_id m)),
           (''active_event_end_utc'',
              (case active_event_end_utc m of None \<Rightarrow> JNull | Some e \<Rightarrow> JStr e)),
           (''saved_at'', JStr (saved_at m))]"

function setActiveEventMeta :: "platform \<Rightarrow> faults \<Rightarrow> int \<Rightarrow> meta_arg option \<Rightarrow> world \<Rightarrow> world" where
  "setActiveEventMeta P F now None w =
     try_removeItem F ACTIVE_EVENT_KEY (try_removeItem F ACTIVE_EVENT_META_KEY w)"
| "setActiveEventMeta P F now (Some meta) w =
     (let eventId = trim (m_eventId meta) in
      if eventId = [] then setActiveEventMeta P F now None w
      else
        let payload =
              \<lparr>meta_event_id = eventId,
               active_event_end_utc =
                 (case m_endUtc meta of
                    None \<Rightarrow> None
                  | Some e \<Rightarrow> if e = [] then None else Some e),
               saved_at = safeIsoNow P now\<rparr>
        in try_setItem F ACTIVE_EVENT_KEY eventId
             (try_setItem F ACTIVE_EVENT_META_KEY (JSON_stringify P (meta_json payload)) w))"
  by pat_completeness auto
termination
  by (relation "measure (\<lambda>(P, F, now, meta, w). case meta of None \<Rightarrow> 0 | Some m \<Rightarrow> 1)") auto

definition getActiveEventMetaUnsafe ::
  "platform \<Rightarrow> faults \<Rightarrow> int \<Rightarrow> world \<Rightarrow> active_event_meta option" where
  "getActiveEventMetaUnsafe P F now w =
     (if getItem_throws F ACTIVE_EVENT_META_KEY then None
      else case storage w ACTIVE_EVENT_META_KEY of
        None \<Rightarrow> None
      | Some raw \<Rightarrow>
          (if raw = [] then None
           else case JSON_parse P raw of
             None \<Rightarrow> None
           | Some parsed \<Rightarrow>
               (if \<not> truthy parsed \<or> \<not> is_object parsed then None
                else
                  let id = trim (if nullish (property parsed ''event_id'') then []
                                 else String_of_opt P (property parsed ''event_id''))
                  in if id = [] then None
                     else
                       let end = property parsed ''active_event_end_utc'';
                           savedAt =
                             (if nullish (property parsed ''saved_at'') then safeIsoNow P now
                              else String_of_opt P (property parsed ''saved_at''))
                       in Some \<lparr>meta_event_id = id,
                                active_event_end_utc =
                                  (if nullish end then None else Some (String_of_opt P end)),
                                saved_at = savedAt\<rparr>)))"

definition setActiveEventId :: "platform \<Rightarrow> faults \<Rightarrow> int \<Rightarrow> string option \<Rightarrow> world \<Rightarrow> world" where
  "setActiveEventId P F now eid w =
     (let normalized = (case eid of
                          None \<Rightarrow> []
                        | Some s \<Rightarrow> if s = [] then [] else trim s)
      in if normalized = [] then setActiveEventMeta P F now None w
         else
           case getActiveEventMetaUnsafe P F now w of
             Some existing \<Rightarrow>
               if meta_event_id existing = normalized
                  \<and> active_event_end_utc existing \<noteq> None
                  \<and> active_event_end_utc existing \<noteq> Some []
               then try_setItem F ACTIVE_EVENT_KEY normalized w
               else setActiveEventMeta P F now
                      (Some \<lparr>m_eventId = normalized, m_endUtc = None\<rparr>) w
           | None \<Rightarrow>
               setActiveEventMeta P F now (Some \<lparr>m_eventId = normalized, m_endUtc = None\<rparr>) w)"

definition getActiveEventId ::
  "platform \<Rightarrow> faults \<Rightarrow> int \<Rightarrow> world \<Rightarrow> string option \<times> world" where
  "getActiveEventId P F now w =
     (case getActiveEventMetaUnsafe P F now w of
        Some meta \<Rightarrow>
          (case parseUtcMs P (active_event_end_utc meta) of
             Some endMs \<Rightarrow>
               if now > endMs
               then (None, safeStopGeofencingIfStarted F (setActiveEventMeta P F now None w))
               else (Some (meta_event_id meta), w)
           | None \<Rightarrow> (Some (meta_event_id meta), w))
      | None \<Rightarrow>
          if getItem_throws F ACTIVE_EVENT_KEY then (None, w)
          else
            let legacy = (case storage w ACTIVE_EVENT_KEY of
                            None \<Rightarrow> None
                          | Some s \<Rightarrow> if s = [] then None else Some s);
                id = (case legacy of None \<Rightarrow> [] | Some s \<Rightarrow> trim s)
            in (if id = [] then None else Some id, w))"

subsection \<open>Debounce\<close>

definition marker_json :: "platform \<Rightarrow> direction \<Rightarrow> int \<Rightarrow> json" where
  "marker_json P d now = JObj [(''dir'', JStr (dir_text d)), (''at'', JStr (toISOString P now))]"

text \<open>
  The test \<open>last && last.dir === dir\<close> followed by \<open>dt < DEBOUNCE_SEC\<close>, where
  \<open>dt = (now - Date.parse(last.at)) / 1000\<close>. A comparison with \<open>NaN\<close> is false.
\<close>

definition debounce_hit :: "platform \<Rightarrow> int \<Rightarrow> direction \<Rightarrow> json option \<Rightarrow> bool" where
  "debounce_hit P now d last_marker =
     (case last_marker of
        None \<Rightarrow> False
      | Some l \<Rightarrow>
          truthy l \<and> property l ''dir'' = Some (JStr (dir_text d))
          \<and> (case Date_parse P (String_of_opt P (property l ''at'')) of
                None \<Rightarrow> False
              | Some t \<Rightarrow> real_of_int (now - t) / 1000 < real_of_int DEBOUNCE_SEC))"

text \<open>
  \<open>raw ? JSON.parse(raw) : null\<close>: the outer \<open>None\<close> is the exception of
  \<open>JSON.parse\<close>, \<open>Some None\<close> is \<open>null\<close>.
\<close>

definition parse_last :: "platform \<Rightarrow> string option \<Rightarrow> json option option" where
  "parse_last P raw =
     (case raw of
        None \<Rightarrow> Some None
      | Some r \<Rightarrow> if r = [] then Some None else map_option Some (JSON_parse P r))"

definition shouldDebounce ::
  "platform \<Rightarrow> faults \<Rightarrow> int \<Rightarrow> direction \<Rightarrow> world \<Rightarrow> bool \<times> world" where
  "shouldDebounce P F now d w =
     (if getItem_throws F LAST_EVENT_KEY then (False, w)
      else
        case parse_last P (storage w LAST_EVENT_KEY) of
          None \<Rightarrow> (False, w)
        | Some last_marker \<Rightarrow>
            if debounce_hit P now d last_marker then (True, w)
            else if setItem_throws F LAST_EVENT_KEY then (False, w)
            else (False,
                  w\<lparr>storage := (storage w)(LAST_EVENT_KEY \<mapsto>
                                   JSON_stringify P (marker_json P d now))\<rparr>))"

text \<open>
  The runtime reads back the marker it writes: the text is not empty, \<open>JSON.parse\<close>
  returns the object that was printed, and \<open>Date.parse\<close> returns the instant that
  \<open>toISOString\<close> printed.
\<close>

definition marker_codec_ok :: "platform \<Rightarrow> direction \<Rightarrow> int \<Rightarrow> bool" where
  "marker_codec_ok P d t =
     (JSON_stringify P (marker_json P d t) \<noteq> []
      \<and> JSON_parse P (JSON_stringify P (marker_json P d t)) = Some (marker_json P d t)
      \<and> Date_parse P (toISOString P t) = Some t)"

subsection \<open>The idempotency key\<close>

text \<open>The decimal text of an integer, as a template literal prints it.\<close>

definition digit_char :: "nat \<Rightarrow> char" where
  "digit_char n = ''0123456789'' ! n"

fun nat_text :: "nat \<Rightarrow> string" where
  "nat_text n = (if n < 10 then [digit_char n] else nat_text (n div 10) @ [digit_char (n mod 10)])"

declare nat_text.simps [simp del]

definition int_text :: "int \<Rightarrow> string" where
  "int_text i = (if i < 0 then CHR ''-'' # nat_text (nat (- i)) else nat_text (nat i))"

text \<open>\<open>Math.floor(Date.parse(atIso) / 1000 / DEBOUNCE_SEC)\<close>, printed; \<open>NaN\<close> prints as such.\<close>

definition slot_text :: "platform \<Rightarrow> string \<Rightarrow> string" where
  "slot_text P atIso =
     (case Date_parse P atIso of
        None \<Rightarrow> ''NaN''
      | Some ms \<Rightarrow> int_text \<lfloor>real_of_int ms / 1000 / real_of_int DEBOUNCE_SEC\<rfloor>)"

text \<open>\<open>regionId ?? "null"\<close>\<close>

definition region_text :: "string option \<Rightarrow> string" where
  "region_text regionId = (case regionId of None \<Rightarrow> ''null'' | Some r \<Rightarrow> r)"

text \<open>The text that is hashed: \<open>`${eventId}|${regionId ?? "null"}|${dir}|${slot}`\<close>.\<close>

definition idem_base :: "platform \<Rightarrow> string \<Rightarrow> string option \<Rightarrow> direction \<Rightarrow> string \<Rightarrow> string" where
  "idem_base P eventId regionId d atIso =
     eventId @ ''|'' @ region_text regionId @ ''|'' @ dir_text d @ ''|'' @ slot_text P atIso"

definition makeIdem :: "platform \<Rightarrow> string \<Rightarrow> string option \<Rightarrow> direction \<Rightarrow> string \<Rightarrow> string" where
  "makeIdem P eventId regionId d atIso = digestSHA256 P (idem_base P eventId regionId d atIso)"

text \<open>The digest does not send the two texts to one key, unless they are one text.\<close>

definition collision_free :: "platform \<Rightarrow> string \<Rightarrow> string \<Rightarrow> bool" where
  "collision_free P a b = (a = b \<or> digestSHA256 P a \<noteq> digestSHA256 P b)"

subsection \<open>The offline queue (lib/syncQueue.ts)\<close>

text \<open>
  Modelled from the spec: lib/syncQueue.ts, which defines \<open>enqueue\<close> and \<open>flushOnce\<close>,
  is not among the sources; only their call sites in lib/geofence.ts are. After the
  specification, \<open>enqueue\<close> appends the record to the persisted ordered list.
\<close>

definition enqueue :: "payload \<Rightarrow> world \<Rightarrow> world" where
  "enqueue p w = w\<lparr>queue := queue w @ [p]\<rparr>"

text \<open>
  Modelled from the spec: \<open>flushOnce\<close> of lib/syncQueue.ts. After the specification it
  attempts delivery for each queued record in insertion order, removes a record only when
  its delivery succeeded, and at the first failure keeps that record and stops the pass.
  \<open>flush_records\<close> returns the records it handed to \<open>deliver\<close>, in order, the records
  that stay queued, and the state \<open>deliver\<close> left behind.
\<close>

fun flush_records ::
  "('s \<Rightarrow> payload \<Rightarrow> bool \<times> 's) \<Rightarrow> payload list \<Rightarrow> 's \<Rightarrow> payload list \<times> payload list \<times> 's" where
  "flush_records deliver [] s = ([], [], s)"
| "flush_records deliver (p # ps) s =
     (case deliver s p of
        (True, s') \<Rightarrow>
          (case flush_records deliver ps s' of
             (attempted, remaining, s'') \<Rightarrow> (p # attempted, remaining, s''))
      | (False, s') \<Rightarrow> ([p], p # ps, s'))"

text \<open>The state that \<open>deliver\<close> leaves after it was handed the records of a list in order.\<close>

fun after_attempts :: "('s \<Rightarrow> payload \<Rightarrow> bool \<times> 's) \<Rightarrow> payload list \<Rightarrow> 's \<Rightarrow> 's" where
  "after_attempts deliver [] s = s"
| "after_attempts deliver (p # ps) s = after_attempts deliver ps (snd (deliver s p))"

text \<open>
  Modelled from the spec: \<open>flushOnce(deliver)\<close> on the world, where \<open>deliver\<close> acts on
  the log of requests as \<open>postToServer\<close> does.
\<close>

definition flushOnce ::
  "(request list \<Rightarrow> payload \<Rightarrow> bool \<times> request list) \<Rightarrow> world \<Rightarrow> world" where
  "flushOnce deliver w =
     (case flush_records deliver (queue w) (network w) of
        (attempted, remaining, net) \<Rightarrow> w\<lparr>queue := remaining, network := net\<rparr>)"

subsection \<open>The background task\<close>

datatype event_type = Enter | Exit | Other_type

record task_error =
  message :: "string option"

text \<open>
  The argument of the task: \<open>error\<close>, and of \<open>data\<close> the fields \<open>eventType\<close> and
  \<open>region.identifier\<close>.
\<close>

record task_body =
  error :: "task_error option"
  eventType :: "event_type option"
  region_identifier :: "string option"

text \<open>
  The readings of the clock during one run of the task: \<open>Date.now()\<close> in
  \<open>shouldDebounce\<close>, \<open>new Date()\<close> in \<open>nowIso\<close>, and the clock of \<open>getActiveEventId\<close>.
\<close>

record clock =
  debounce_now :: int
  at_now :: int
  ctx_now :: int

definition nowIso :: "platform \<Rightarrow> int \<Rightarrow> string" where
  "nowIso P now = toISOString P now"

text \<open>How a run of the task ended; \<open>Processed p ok\<close> built the record \<open>p\<close> and posted it.\<close>

datatype outcome = Task_failed | Debounced | No_event | Processed payload bool

text \<open>\<open>!eventId\<close> for a value that is a string or \<open>null\<close>.\<close>

fun falsy :: "string option \<Rightarrow> bool" where
  "falsy None = True"
| "falsy (Some s) = (s = [])"

definition startsWith :: "string \<Rightarrow> string \<Rightarrow> bool" where
  "startsWith s pre = (take (length pre) s = pre)"

text \<open>The direction of a signal; a type that is neither Enter nor Exit counts as ENTER.\<close>

definition signal_dir :: "task_body \<Rightarrow> direction" where
  "signal_dir body =
     (case eventType body of
        Some Enter \<Rightarrow> ENTER
      | Some Exit \<Rightarrow> EXIT
      | _ \<Rightarrow> ENTER)"

text \<open>
  The event id of a signal: the stored one, or else the one after \<open>event:\<close> in the
  identifier of the region.
\<close>

definition resolve_eventId :: "string option \<Rightarrow> string option \<Rightarrow> string option" where
  "resolve_eventId stored regionId =
     (case regionId of
        Some r \<Rightarrow>
          if falsy stored \<and> r \<noteq> [] \<and> startsWith r ''event:''
          then (let parsed = trim (drop (length ''event:'') r)
                in if parsed \<noteq> [] then Some parsed else None)
          else stored
      | None \<Rightarrow> stored)"

text \<open>
  The rest of the task once the event id is there: build the record, post it, queue it and
  flush when the post failed, notify.
\<close>

definition process_transition ::
  "platform \<Rightarrow> server \<Rightarrow> string \<Rightarrow> string option \<Rightarrow> direction \<Rightarrow> string \<Rightarrow> world \<Rightarrow> outcome \<times> world" where
  "process_transition P S e regionId d atIso w =
     (let p = \<lparr>event_id = e, dir = d, at_iso = atIso, region_id = regionId, acc_m = None,
               device = Some ''mobile'', idem = makeIdem P e regionId d atIso\<rparr>
      in case postToServer S (network w) p of
           (ok, net) \<Rightarrow>
             (let w1 = w\<lparr>network := net\<rparr>;
                  w2 = (if \<not> ok then flushOnce (postToServer S) (enqueue p w1) else w1);
                  w3 = (if GEOFENCE_DEBUG_NOTI
                        then w2\<lparr>notified := notified w2 @
                               [Transition d (take 8 e) (if falsy regionId then None else regionId)]\<rparr>
                        else w2)
              in (Processed p ok, w3)))"

definition geofence_task ::
  "platform \<Rightarrow> faults \<Rightarrow> server \<Rightarrow> clock \<Rightarrow> task_body \<Rightarrow> world \<Rightarrow> outcome \<times> world" where
  "geofence_task P F S C body w =
     (case error body of
        Some err \<Rightarrow>
          (Task_failed,
           w\<lparr>notified := notified w @
                [Task_error (case message err of None \<Rightarrow> ''Unknown error'' | Some m \<Rightarrow> m)]\<rparr>)
      | None \<Rightarrow>
          (let d = signal_dir body
           in case shouldDebounce P F (debounce_now C) d w of
                (True, w1) \<Rightarrow> (Debounced, w1)
              | (False, w1) \<Rightarrow>
                  (let atIso = nowIso P (at_now C);
                       regionId = region_identifier body
                   in case getActiveEventId P F (ctx_now C) w1 of
                        (stored, w2) \<Rightarrow>
                          (case resolve_eventId stored regionId of
                             None \<Rightarrow> (No_event, w2)
                           | Some e \<Rightarrow>
                               if e = [] then (No_event, w2)
                               else process_transition P S e regionId d atIso w2))))"

subsection \<open>Fixtures for concrete runs\<close>

text \<open>The record of an ENTER of the region \<open>event:E1\<close> at 10:00:00 on 1 January 2025.\<close>

definition sample_payload :: payload where
  "sample_payload =
     \<lparr>event_id = ''E1'', dir = ENTER, at_iso = ''2025-01-01T10:00:00.000Z'',
      region_id = Some ''event:E1'', acc_m = None, device = Some ''mobile'',
      idem = ''7b8a2e930f4255e614896236e29078485f562d1a738ed452a0486c397945e6a5''\<rparr>"

text \<open>
  A table of values of the runtime functions, enough for the runs below: three instants of
  1 January 2025, the stored texts of one active-event record and of two markers, and the
  SHA-256 digests of four key texts. Outside the table the functions return nothing or the
  empty text; no run below depends on such a value.
\<close>

definition meta_E1_json :: json where
  "meta_E1_json =
     JObj [(''event_id'', JStr ''E1''),
           (''active_event_end_utc'', JStr ''2025-01-01T12:00:00.000Z''),
           (''saved_at'', JStr ''2025-01-01T10:00:00.000Z'')]"

definition meta_E1_raw :: string where
  \<open>meta_E1_raw =
     ''{"event_id":"E1","active_event_end_utc":"2025-01-01T12:00:00.000Z","saved_at":"2025-01-01T10:00:00.000Z"}''\<close>

definition marker_ENTER_json :: json where
  "marker_ENTER_json = JObj [(''dir'', JStr ''ENTER''), (''at'', JStr ''2025-01-01T10:00:00.000Z'')]"

definition marker_ENTER_raw :: string where
  \<open>marker_ENTER_raw = ''{"dir":"ENTER","at":"2025-01-01T10:00:00.000Z"}''\<close>

definition marker_EXIT_json :: json where
  "marker_EXIT_json = JObj [(''dir'', JStr ''EXIT''), (''at'', JStr ''2025-01-01T10:00:10.000Z'')]"

definition marker_EXIT_raw :: string where
  \<open>marker_EXIT_raw = ''{"dir":"EXIT","at":"2025-01-01T10:00:10.000Z"}''\<close>

definition sample_runtime :: platform where
  "sample_runtime =
     \<lparr>Date_parse = (\<lambda>s.
        if s = ''2025-01-01T10:00:00.000Z'' then Some 1735725600000
        else if s = ''2025-01-01T10:00:10.000Z'' then Some 1735725610000
        else if s = ''2025-01-01T12:00:00.000Z'' then Some 1735732800000
        else None),
      toISOString = (\<lambda>t.
        if t = 1735725600000 then ''2025-01-01T10:00:00.000Z''
        else if t = 1735725610000 then ''2025-01-01T10:00:10.000Z''
        else if t = 1735732800000 then ''2025-01-01T12:00:00.000Z''
        else []),
      JSON_parse = (\<lambda>s.
        if s = meta_E1_raw then Some meta_E1_json
        else if s = marker_ENTER_raw then Some marker_ENTER_json
        else if s = marker_EXIT_raw then Some marker_EXIT_json
        else None),
      JSON_stringify = (\<lambda>j.
        if j = meta_E1_json then meta_E1_raw
        else if j = marker_ENTER_json then marker_ENTER_raw
        else if j = marker_EXIT_json then marker_EXIT_raw
        else []),
      String_other = (\<lambda>j. []),
      digestSHA256 = (\<lambda>s.
        if s = ''E1|event:E1|ENTER|57857520''
        then ''7b8a2e930f4255e614896236e29078485f562d1a738ed452a0486c397945e6a5''
        else if s = ''E1|event:E1|EXIT|57857520''
        then ''f7bcc045eadf276ad32a4f02bf3e1c4dcb0f04f0f19b94987d7e0dc927d3094b''
        else if s = ''E1|null|ENTER|57857520''
        then ''6237c2bbf43d849546c2e7ba9cb23d3d205667760a575697ae2b4d15c9b22b71''
        else if s = ''E1|x|y|ENTER|57857520''
        then ''c89ec44e3b25f5e8de3142d904d0ccdc17e1d4d5c9b8cd8899e1a4e0ca1957e5''
        else [])\<rparr>"

definition no_faults :: faults where
  "no_faults =
     \<lparr>getItem_throws = (\<lambda>k. False), setItem_throws = (\<lambda>k. False),
      removeItem_throws = (\<lambda>k. False),
      hasStartedGeofencing_rejects = False, stopGeofencing_rejects = False\<rparr>"

text \<open>Nothing stored, nothing queued, monitoring on.\<close>

definition fresh_world :: world where
  "fresh_world =
     \<lparr>storage = Map.empty, geofencing_started = True, queue = [], network = [], notified = []\<rparr>"

text \<open>The world after arming at 10:00:00 for event E1, whose window ends at 12:00.\<close>

definition armed_world :: world where
  "armed_world =
     fresh_world\<lparr>storage := [ACTIVE_EVENT_META_KEY \<mapsto> meta_E1_raw, ACTIVE_EVENT_KEY \<mapsto> ''E1'']\<rparr>"

text \<open>A world written by an older version: only the legacy key is there.\<close>

definition legacy_world :: world where
  "legacy_world = fresh_world\<lparr>storage := [ACTIVE_EVENT_KEY \<mapsto> '' E1 '']\<rparr>"

text \<open>The armed world after an ENTER was processed at 10:00:00.\<close>

definition entered_world :: world where
  "entered_world =
     armed_world\<lparr>storage := (storage armed_world)(LAST_EVENT_KEY \<mapsto> marker_ENTER_raw)\<rparr>"

text \<open>The world after that ENTER was posted to a backend that accepted it.\<close>

definition checked_in_world :: world where
  "checked_in_world =
     entered_world\<lparr>network := [Rpc_geofence_log sample_payload],
                    notified := [Transition ENTER ''E1'' (Some ''event:E1'')]\<rparr>"

text \<open>Storage that cannot be read, and storage that cannot be written.\<close>

definition read_failing :: faults where
  "read_failing = no_faults\<lparr>getItem_throws := (\<lambda>k. True)\<rparr>"

definition write_failing :: faults where
  "write_failing = no_faults\<lparr>setItem_throws := (\<lambda>k. True)\<rparr>"

text \<open>Signals of the platform, and the clock at 10:00:00 and ten seconds later.\<close>

definition enter_signal :: task_body where
  "enter_signal = \<lparr>error = None, eventType = Some Enter, region_identifier = Some ''event:E1''\<rparr>"

definition exit_signal :: task_body where
  "exit_signal = \<lparr>error = None, eventType = Some Exit, region_identifier = Some ''event:E1''\<rparr>"

definition venue_signal :: task_body where
  "venue_signal = \<lparr>error = None, eventType = Some Enter, region_identifier = Some ''venue''\<rparr>"

definition clock_100000 :: clock where
  "clock_100000 =
     \<lparr>debounce_now = 1735725600000, at_now = 1735725600000, ctx_now = 1735725600000\<rparr>"

definition clock_100010 :: clock where
  "clock_100010 =
     \<lparr>debounce_now = 1735725610000, at_now = 1735725610000, ctx_now = 1735725610000\<rparr>"

text \<open>The record of the EXIT ten seconds after \<open>sample_payload\<close>.\<close>

definition exit_payload :: payload where
  "exit_payload =
     \<lparr>event_id = ''E1'', dir = EXIT, at_iso = ''2025-01-01T10:00:10.000Z'',
      region_id = Some ''event:E1'', acc_m = None, device = Some ''mobile'',
      idem = ''f7bcc045eadf276ad32a4f02bf3e1c4dcb0f04f0f19b94987d7e0dc927d3094b''\<rparr>"

text \<open>A backend that accepts the records of an ENTER and cannot be reached for the others.\<close>

definition enter_only_server :: server where
  "enter_only_server =
     \<lparr>rpc = (\<lambda>net p. if dir p = ENTER then Resolved None else Rejected),
      insert_row = (\<lambda>net p. Rejected)\<rparr>"

text \<open>A backend that accepts every procedure call, and one that is out of reach.\<close>

definition accepting_server :: server where
  "accepting_server =
     \<lparr>rpc = (\<lambda>net p. Resolved None), insert_row = (\<lambda>net p. Resolved None)\<rparr>"

definition unreachable_server :: server where
  "unreachable_server = \<lparr>rpc = (\<lambda>net p. Rejected), insert_row = (\<lambda>net p. Rejected)\<rparr>"

text \<open>A backend whose procedure refuses the caller and whose table accepts the row.\<close>

definition auth_failing_server :: server where
  "auth_failing_server =
     \<lparr>rpc = (\<lambda>net p. Resolved (Some AuthFailure)),
      insert_row = (\<lambda>net p. Resolved None)\<rparr>"

section \<open>Properties\<close>

subsection \<open>Delivery\<close>

text \<open>
  C6, as stated, at a concrete input: the procedure call fails with an authorisation
  error, which does not say that the procedure is unavailable. The claim asks for no
  fallback and the result \<open>false\<close>; the code sends the fallback insert and returns
  \<open>true\<close>.
\<close>

theorem postToServer_auth_failure_counterexample:
  "rpc auth_failing_server [] sample_payload = Resolved (Some AuthFailure)
   \<and> postToServer auth_failing_server [] sample_payload =
       (True, [Rpc_geofence_log sample_payload, Insert_geofence_events sample_payload])"
  by (simp add: postToServer_def auth_failing_server_def)

text \<open>
  C6, amended: \<open>postToServer\<close> always sends the procedure call first. It sends the
  fallback insert of the same record exactly when the procedure call resolves with an
  error, whatever the error is. It returns \<open>true\<close> exactly when the procedure call
  resolves without error, or resolves with an error and the insert resolves without
  error; in every other case (either call rejects, or the insert resolves with an error)
  it returns \<open>false\<close>. It has no outcome other than a boolean: nothing is thrown.
\<close>

theorem postToServer_falls_back_on_any_error:
  "snd (postToServer S net p) =
     net @ Rpc_geofence_log p #
       (if (\<exists>e. rpc S net p = Resolved (Some e)) then [Insert_geofence_events p] else [])
   \<and> fst (postToServer S net p) =
       (rpc S net p = Resolved None
        \<or> ((\<exists>e. rpc S net p = Resolved (Some e))
            \<and> insert_row S (net @ [Rpc_geofence_log p]) p = Resolved None))"
  by (simp add: postToServer_def Let_def split: response.split option.split)

subsection \<open>Shared facts\<close>

lemma keys_distinct:
  "ACTIVE_EVENT_KEY \<noteq> ACTIVE_EVENT_META_KEY" "ACTIVE_EVENT_META_KEY \<noteq> ACTIVE_EVENT_KEY"
  "LAST_EVENT_KEY \<noteq> ACTIVE_EVENT_KEY" "ACTIVE_EVENT_KEY \<noteq> LAST_EVENT_KEY"
  "LAST_EVENT_KEY \<noteq> ACTIVE_EVENT_META_KEY" "ACTIVE_EVENT_META_KEY \<noteq> LAST_EVENT_KEY"
  by (simp_all add: ACTIVE_EVENT_KEY_def ACTIVE_EVENT_META_KEY_def LAST_EVENT_KEY_def)

lemma trim_Nil: "trim [] = []"
  by (simp add: trim_def)

text \<open>Clearing the context removes the two keys, each unless its removal fails.\<close>

lemma clear_context_storage:
  "setActiveEventMeta P F now None w =
     w\<lparr>storage := (\<lambda>k. if (k = ACTIVE_EVENT_META_KEY \<or> k = ACTIVE_EVENT_KEY) \<and> \<not> removeItem_throws F k
                         then None else storage w k)\<rparr>"
  by (auto simp: try_removeItem_def fun_eq_iff keys_distinct intro!: world.equality)

text \<open>The meta record is read from its own key and from nothing else.\<close>

lemma meta_read_only_meta_key:
  "storage w' ACTIVE_EVENT_META_KEY = storage w ACTIVE_EVENT_META_KEY \<Longrightarrow>
   getActiveEventMetaUnsafe P F now w' = getActiveEventMetaUnsafe P F now w"
  by (simp add: getActiveEventMetaUnsafe_def)

lemma meta_event_id_nonempty:
  "getActiveEventMetaUnsafe P F now w = Some m \<Longrightarrow> meta_event_id m \<noteq> []"
  by (auto simp: getActiveEventMetaUnsafe_def Let_def split: if_splits option.splits)

subsection \<open>Setting the active event\<close>

text \<open>
  C7, as stated, at a concrete input: the context of event E1 is stored under both keys,
  and \<open>setActiveEventId\<close> is called with an id of three spaces, blank after trimming.
  The claim asks for both keys to stay as they are; the code removes both.
\<close>

theorem blank_eventId_counterexample:
  "trim ''   '' = []
   \<and> storage armed_world ACTIVE_EVENT_META_KEY = Some meta_E1_raw
   \<and> storage armed_world ACTIVE_EVENT_KEY = Some ''E1''
   \<and> storage (setActiveEventId sample_runtime no_faults 1735725600000 (Some ''   '') armed_world)
        ACTIVE_EVENT_META_KEY = None
   \<and> storage (setActiveEventId sample_runtime no_faults 1735725600000 (Some ''   '') armed_world)
        ACTIVE_EVENT_KEY = None"
  by (simp add: setActiveEventId_def try_removeItem_def trim_def is_ws_def armed_world_def
      fresh_world_def no_faults_def keys_distinct)

text \<open>
  C7, amended: an event id that is blank after trimming is never persisted. Both
  \<open>setActiveEventId\<close> and \<open>setActiveEventMeta\<close> then do what clearing the context
  does: the meta record and the legacy key are removed, each unless its removal fails,
  and nothing else in the world changes.
\<close>

theorem blank_eventId_clears_context:
  assumes "trim e = []"
  shows "setActiveEventId P F now (Some e) w = setActiveEventMeta P F now None w
       \<and> setActiveEventMeta P F now (Some \<lparr>m_eventId = e, m_endUtc = u\<rparr>) w
           = setActiveEventMeta P F now None w
       \<and> setActiveEventMeta P F now None w =
           w\<lparr>storage := (\<lambda>k. if (k = ACTIVE_EVENT_META_KEY \<or> k = ACTIVE_EVENT_KEY)
                                  \<and> \<not> removeItem_throws F k
                               then None else storage w k)\<rparr>"
proof -
  have "setActiveEventId P F now (Some e) w = setActiveEventMeta P F now None w"
    using assms by (simp add: setActiveEventId_def)
  moreover have "setActiveEventMeta P F now (Some \<lparr>m_eventId = e, m_endUtc = u\<rparr>) w
      = setActiveEventMeta P F now None w"
    using assms by simp
  ultimately show ?thesis
    using clear_context_storage [of P F now w] by simp
qed

theorem blank_eventId_clears_context_witness:
  "trim ''   '' = []
   \<and> setActiveEventId sample_runtime no_faults 1735725600000 (Some ''   '') armed_world = fresh_world"
proof -
  have blank: "trim ''   '' = []"
    by (simp add: trim_def is_ws_def)
  have "(\<lambda>k. if (k = ACTIVE_EVENT_META_KEY \<or> k = ACTIVE_EVENT_KEY) \<and> \<not> removeItem_throws no_faults k
             then None else storage armed_world k) = Map.empty"
    by (auto simp: fun_eq_iff armed_world_def fresh_world_def no_faults_def)
  with blank_eventId_clears_context [OF blank, of sample_runtime no_faults 1735725600000 armed_world None]
  show ?thesis
    using blank by (simp add: armed_world_def fresh_world_def)
qed

lemma armed_meta:
  "getActiveEventMetaUnsafe sample_runtime no_faults now armed_world =
     Some \<lparr>meta_event_id = ''E1'', active_event_end_utc = Some ''2025-01-01T12:00:00.000Z'',
           saved_at = ''2025-01-01T10:00:00.000Z''\<rparr>"
  by (simp add: getActiveEventMetaUnsafe_def sample_runtime_def no_faults_def armed_world_def
      fresh_world_def meta_E1_json_def meta_E1_raw_def ACTIVE_EVENT_META_KEY_def
      ACTIVE_EVENT_KEY_def trim_def is_ws_def)

text \<open>
  C8: when the stored meta record reads as event id E with a known end time (a string that
  is not empty), \<open>setActiveEventId\<close> with an id that trims to E only rewrites the legacy
  key. The text stored under the meta key is the one that was there, and reading the meta
  record again gives the same record, with the end time it had.
\<close>

theorem same_event_keeps_end_time:
  assumes "getActiveEventMetaUnsafe P F now w = Some m"
      and "meta_event_id m = trim e"
      and "active_event_end_utc m = Some u"
      and "u \<noteq> []"
  shows "setActiveEventId P F now (Some e) w = try_setItem F ACTIVE_EVENT_KEY (trim e) w
       \<and> storage (setActiveEventId P F now (Some e) w) ACTIVE_EVENT_META_KEY
           = storage w ACTIVE_EVENT_META_KEY
       \<and> getActiveEventMetaUnsafe P F now (setActiveEventId P F now (Some e) w) = Some m"
proof -
  from assms(1,2) have ne: "trim e \<noteq> []"
    using meta_event_id_nonempty by fastforce
  then have "e \<noteq> []"
    using trim_Nil by auto
  with ne assms have step:
    "setActiveEventId P F now (Some e) w = try_setItem F ACTIVE_EVENT_KEY (trim e) w"
    by (simp add: setActiveEventId_def)
  have same: "storage (try_setItem F ACTIVE_EVENT_KEY (trim e) w) ACTIVE_EVENT_META_KEY
      = storage w ACTIVE_EVENT_META_KEY"
    by (simp add: try_setItem_def keys_distinct)
  from meta_read_only_meta_key [OF same] assms(1) step same show ?thesis
    by simp
qed

theorem same_event_keeps_end_time_witness:
  "getActiveEventMetaUnsafe sample_runtime no_faults 1735725600000 armed_world =
     Some \<lparr>meta_event_id = ''E1'', active_event_end_utc = Some ''2025-01-01T12:00:00.000Z'',
           saved_at = ''2025-01-01T10:00:00.000Z''\<rparr>
   \<and> trim '' E1 '' = ''E1''
   \<and> setActiveEventId sample_runtime no_faults 1735725600000 (Some '' E1 '') armed_world = armed_world
   \<and> getActiveEventMetaUnsafe sample_runtime no_faults 1735725600000
        (setActiveEventId sample_runtime no_faults 1735725600000 (Some '' E1 '') armed_world) =
     Some \<lparr>meta_event_id = ''E1'', active_event_end_utc = Some ''2025-01-01T12:00:00.000Z'',
           saved_at = ''2025-01-01T10:00:00.000Z''\<rparr>"
proof -
  have t: "trim '' E1 '' = ''E1''"
    by (simp add: trim_def is_ws_def)
  have same: "try_setItem no_faults ACTIVE_EVENT_KEY ''E1'' armed_world = armed_world"
    by (auto simp: try_setItem_def armed_world_def fresh_world_def no_faults_def fun_eq_iff)
  from same_event_keeps_end_time [OF armed_meta, of "'' E1 ''" "''2025-01-01T12:00:00.000Z''"] t same
  show ?thesis
    using armed_meta by simp
qed

subsection \<open>Reading the active event\<close>

lemma no_faults_simps:
  "\<not> getItem_throws no_faults k" "\<not> setItem_throws no_faults k"
  "\<not> removeItem_throws no_faults k"
  "\<not> hasStartedGeofencing_rejects no_faults" "\<not> stopGeofencing_rejects no_faults"
  by (simp_all add: no_faults_def)

lemma cleared_reads_absent:
  assumes "storage w ACTIVE_EVENT_META_KEY = None" and "storage w ACTIVE_EVENT_KEY = None"
  shows "getActiveEventId P F now w = (None, w)"
  using assms by (simp add: getActiveEventId_def getActiveEventMetaUnsafe_def)


text \<open>
  C3: when the stored meta record has an end time that parses to an instant strictly before
  now, \<open>getActiveEventId\<close> returns nothing, clears the context and makes its best-effort
  stop of the monitoring: the registration is off afterwards unless asking for it or
  stopping it failed. When neither removal fails, both keys are gone and any later read
  returns nothing and changes nothing. When the meta record has no end time, or one that
  does not parse, or one that has not passed, the stored event id is returned and the world
  is untouched. When there is no meta record, the legacy key decides: its trimmed text, or
  nothing when it is absent, blank or unreadable.
\<close>

theorem getActiveEventId_expiry:
  "(getActiveEventMetaUnsafe P F now w = Some m
      \<and> parseUtcMs P (active_event_end_utc m) = Some endMs \<and> endMs < now \<longrightarrow>
      fst (getActiveEventId P F now w) = None
      \<and> snd (getActiveEventId P F now w)
          = safeStopGeofencingIfStarted F (setActiveEventMeta P F now None w)
      \<and> geofencing_started (snd (getActiveEventId P F now w))
          = (geofencing_started w \<and> (hasStartedGeofencing_rejects F \<or> stopGeofencing_rejects F))
      \<and> (\<not> removeItem_throws F ACTIVE_EVENT_META_KEY \<and> \<not> removeItem_throws F ACTIVE_EVENT_KEY \<longrightarrow>
            storage (snd (getActiveEventId P F now w)) ACTIVE_EVENT_META_KEY = None
          \<and> storage (snd (getActiveEventId P F now w)) ACTIVE_EVENT_KEY = None
          \<and> getActiveEventId P F' now' (snd (getActiveEventId P F now w))
              = (None, snd (getActiveEventId P F now w))))
   \<and> (getActiveEventMetaUnsafe P F now w = Some m
      \<and> (parseUtcMs P (active_event_end_utc m) = None
          \<or> (\<exists>endMs. parseUtcMs P (active_event_end_utc m) = Some endMs \<and> now \<le> endMs)) \<longrightarrow>
      getActiveEventId P F now w = (Some (meta_event_id m), w))
   \<and> (getActiveEventMetaUnsafe P F now w = None \<longrightarrow>
      getActiveEventId P F now w =
        (if getItem_throws F ACTIVE_EVENT_KEY then None
         else case storage w ACTIVE_EVENT_KEY of
                None \<Rightarrow> None
              | Some s \<Rightarrow> if trim s = [] then None else Some (trim s),
         w))"
proof (intro conjI impI)
  assume a: "getActiveEventMetaUnsafe P F now w = Some m
      \<and> parseUtcMs P (active_event_end_utc m) = Some endMs \<and> endMs < now"
  then have run: "getActiveEventId P F now w
      = (None, safeStopGeofencingIfStarted F (setActiveEventMeta P F now None w))"
    by (simp add: getActiveEventId_def)
  then show "fst (getActiveEventId P F now w) = None"
    and "snd (getActiveEventId P F now w)
          = safeStopGeofencingIfStarted F (setActiveEventMeta P F now None w)"
    by simp_all
  show "geofencing_started (snd (getActiveEventId P F now w))
          = (geofencing_started w \<and> (hasStartedGeofencing_rejects F \<or> stopGeofencing_rejects F))"
    unfolding run by (auto simp: safeStopGeofencingIfStarted_def try_removeItem_def Let_def)
  assume r: "\<not> removeItem_throws F ACTIVE_EVENT_META_KEY \<and> \<not> removeItem_throws F ACTIVE_EVENT_KEY"
  then show m0: "storage (snd (getActiveEventId P F now w)) ACTIVE_EVENT_META_KEY = None"
    and l0: "storage (snd (getActiveEventId P F now w)) ACTIVE_EVENT_KEY = None"
    unfolding run by (simp_all add: safeStopGeofencingIfStarted_def try_removeItem_def keys_distinct Let_def)
  from cleared_reads_absent [OF m0 l0]
  show "getActiveEventId P F' now' (snd (getActiveEventId P F now w))
              = (None, snd (getActiveEventId P F now w))" .
next
  assume "getActiveEventMetaUnsafe P F now w = Some m
      \<and> (parseUtcMs P (active_event_end_utc m) = None
          \<or> (\<exists>endMs. parseUtcMs P (active_event_end_utc m) = Some endMs \<and> now \<le> endMs))"
  then show "getActiveEventId P F now w = (Some (meta_event_id m), w)"
    by (auto simp: getActiveEventId_def)
next
  assume "getActiveEventMetaUnsafe P F now w = None"
  then show "getActiveEventId P F now w =
        (if getItem_throws F ACTIVE_EVENT_KEY then None
         else case storage w ACTIVE_EVENT_KEY of
                None \<Rightarrow> None
              | Some s \<Rightarrow> if trim s = [] then None else Some (trim s),
         w)"
    by (auto simp: getActiveEventId_def trim_Nil split: option.splits)
qed

theorem getActiveEventId_expiry_witness:
  "getActiveEventMetaUnsafe sample_runtime no_faults 1735736400000 armed_world =
     Some \<lparr>meta_event_id = ''E1'', active_event_end_utc = Some ''2025-01-01T12:00:00.000Z'',
           saved_at = ''2025-01-01T10:00:00.000Z''\<rparr>
   \<and> parseUtcMs sample_runtime (Some ''2025-01-01T12:00:00.000Z'') = Some 1735732800000
   \<and> getActiveEventId sample_runtime no_faults 1735736400000 armed_world
       = (None, fresh_world\<lparr>geofencing_started := False\<rparr>)
   \<and> getActiveEventId sample_runtime no_faults 1735736400000
         (fresh_world\<lparr>geofencing_started := False\<rparr>)
       = (None, fresh_world\<lparr>geofencing_started := False\<rparr>)
   \<and> getActiveEventId sample_runtime no_faults 1735725600000 armed_world = (Some ''E1'', armed_world)
   \<and> getActiveEventMetaUnsafe sample_runtime no_faults 1735725600000 legacy_world = None
   \<and> getActiveEventId sample_runtime no_faults 1735725600000 legacy_world = (Some ''E1'', legacy_world)"
proof -
  let ?m = "\<lparr>meta_event_id = ''E1'', active_event_end_utc = Some ''2025-01-01T12:00:00.000Z'',
             saved_at = ''2025-01-01T10:00:00.000Z''\<rparr>"
  have ends: "parseUtcMs sample_runtime (Some ''2025-01-01T12:00:00.000Z'') = Some 1735732800000"
    by (simp add: parseUtcMs_def sample_runtime_def)
  have cleared: "safeStopGeofencingIfStarted no_faults
        (setActiveEventMeta sample_runtime no_faults 1735736400000 None armed_world)
      = fresh_world\<lparr>geofencing_started := False\<rparr>"
    by (simp add: safeStopGeofencingIfStarted_def try_removeItem_def no_faults_def
        armed_world_def fresh_world_def keys_distinct)
  have no_meta: "getActiveEventMetaUnsafe sample_runtime no_faults 1735725600000 legacy_world = None"
    by (simp add: getActiveEventMetaUnsafe_def legacy_world_def fresh_world_def no_faults_def
        keys_distinct)
  have legacy: "storage legacy_world ACTIVE_EVENT_KEY = Some '' E1 ''" "trim '' E1 '' = ''E1''"
    by (simp_all add: legacy_world_def fresh_world_def trim_def is_ws_def)
  note expired = getActiveEventId_expiry [where P = sample_runtime and F = no_faults
      and now = 1735736400000 and w = armed_world and m = ?m and endMs = 1735732800000
      and F' = no_faults and now' = 1735736400000]
  note running = getActiveEventId_expiry [where P = sample_runtime and F = no_faults
      and now = 1735725600000 and w = armed_world and m = ?m and endMs = 1735732800000]
  note fallback = getActiveEventId_expiry [where P = sample_runtime and F = no_faults
      and now = 1735725600000 and w = legacy_world and m = ?m and endMs = 1735732800000]
  let ?g = "getActiveEventId sample_runtime no_faults 1735736400000 armed_world"
  have pre: "getActiveEventMetaUnsafe sample_runtime no_faults 1735736400000 armed_world = Some ?m
      \<and> parseUtcMs sample_runtime (active_event_end_utc ?m) = Some 1735732800000
      \<and> (1735732800000::int) < 1735736400000"
    using armed_meta [of 1735736400000] ends by simp
  have removable: "\<not> removeItem_throws no_faults ACTIVE_EVENT_META_KEY
      \<and> \<not> removeItem_throws no_faults ACTIVE_EVENT_KEY"
    by (simp add: no_faults_simps)
  from expired pre removable
  have ex: "fst ?g = None"
    "snd ?g = safeStopGeofencingIfStarted no_faults
        (setActiveEventMeta sample_runtime no_faults 1735736400000 None armed_world)"
    "getActiveEventId sample_runtime no_faults 1735736400000 (snd ?g) = (None, snd ?g)"
    by blast+
  from ex(2) cleared have r: "snd ?g = fresh_world\<lparr>geofencing_started := False\<rparr>"
    by simp
  have one: "?g = (None, fresh_world\<lparr>geofencing_started := False\<rparr>)
     \<and> getActiveEventId sample_runtime no_faults 1735736400000
         (fresh_world\<lparr>geofencing_started := False\<rparr>)
       = (None, fresh_world\<lparr>geofencing_started := False\<rparr>)"
    using ex(1) r ex(3) [unfolded r] by (simp add: prod_eq_iff)
  have two: "getActiveEventId sample_runtime no_faults 1735725600000 armed_world = (Some ''E1'', armed_world)"
    using running armed_meta [of 1735725600000] ends by simp
  have three: "getActiveEventId sample_runtime no_faults 1735725600000 legacy_world = (Some ''E1'', legacy_world)"
    using fallback no_meta legacy by (simp add: no_faults_simps)
  from one two three ends no_meta armed_meta [of 1735736400000] show ?thesis
    by simp
qed

subsection \<open>Debounce\<close>

lemma dir_text_inj: "dir_text a = dir_text b \<longleftrightarrow> a = b"
  by (cases a; cases b) simp_all

lemma debounce_hit_None: "debounce_hit P now d None = False"
  by (simp add: debounce_hit_def)

lemma debounce_hit_marker:
  assumes "Date_parse P a = Some t"
  shows "debounce_hit P now d (Some (JObj [(''dir'', JStr (dir_text d')), (''at'', JStr a)]))
         = (d' = d \<and> now - t < 30000)"
proof -
  have "(real_of_int (now - t) / 1000 < real_of_int DEBOUNCE_SEC)
      = (real_of_int (now - t) < real_of_int 30000)"
    unfolding DEBOUNCE_SEC_def by (simp del: of_int_diff)
  also have "\<dots> = (now - t < 30000)"
    by (rule of_int_less_iff)
  finally have "(real_of_int (now - t) / 1000 < real_of_int DEBOUNCE_SEC) = (now - t < 30000)" .
  with assms show ?thesis
    by (auto simp: debounce_hit_def dir_text_inj)
qed

text \<open>
  C9: when reading the marker throws, \<open>shouldDebounce\<close> returns \<open>false\<close> and leaves
  the world as it is. The marker is written only when the signal is not a repeat; when
  that write throws, the result is \<open>false\<close> as well. A result of \<open>true\<close> comes only from
  a marker that was read and parsed and that is a recent one of the same direction: no
  storage failure suppresses a signal.
\<close>

theorem storage_failure_never_suppresses:
  "(getItem_throws F LAST_EVENT_KEY \<longrightarrow> shouldDebounce P F now d w = (False, w))
   \<and> (\<not> getItem_throws F LAST_EVENT_KEY \<and> setItem_throws F LAST_EVENT_KEY
        \<and> parse_last P (storage w LAST_EVENT_KEY) = Some lm \<and> \<not> debounce_hit P now d lm \<longrightarrow>
        shouldDebounce P F now d w = (False, w))
   \<and> (fst (shouldDebounce P F now d w) \<longrightarrow>
        \<not> getItem_throws F LAST_EVENT_KEY
        \<and> (\<exists>lm. parse_last P (storage w LAST_EVENT_KEY) = Some lm \<and> debounce_hit P now d lm)
        \<and> snd (shouldDebounce P F now d w) = w)"
  by (auto simp: shouldDebounce_def split: option.splits if_splits)

lemma entered_marker:
  "parse_last sample_runtime (storage entered_world LAST_EVENT_KEY) = Some (Some marker_ENTER_json)"
  by (simp add: parse_last_def entered_world_def sample_runtime_def marker_ENTER_raw_def
      meta_E1_raw_def)

lemma marker_ENTER_hit:
  "debounce_hit sample_runtime 1735725610000 d (Some marker_ENTER_json) = (d = ENTER)"
proof -
  have "Date_parse sample_runtime ''2025-01-01T10:00:00.000Z'' = Some 1735725600000"
    by (simp add: sample_runtime_def)
  from debounce_hit_marker [OF this, of 1735725610000 d ENTER] show ?thesis
    by (auto simp: marker_ENTER_json_def)
qed

theorem storage_failure_never_suppresses_witness:
  "shouldDebounce sample_runtime read_failing 1735725610000 ENTER entered_world = (False, entered_world)
   \<and> shouldDebounce sample_runtime write_failing 1735725610000 EXIT entered_world = (False, entered_world)
   \<and> shouldDebounce sample_runtime no_faults 1735725610000 ENTER entered_world = (True, entered_world)"
proof -
  note t = storage_failure_never_suppresses
  have one: "shouldDebounce sample_runtime read_failing 1735725610000 ENTER entered_world
      = (False, entered_world)"
    using t [of read_failing sample_runtime 1735725610000 ENTER entered_world]
    by (simp add: read_failing_def)
  have two: "shouldDebounce sample_runtime write_failing 1735725610000 EXIT entered_world
      = (False, entered_world)"
    using t [of write_failing sample_runtime 1735725610000 EXIT entered_world "Some marker_ENTER_json"]
      entered_marker marker_ENTER_hit [of EXIT]
    by (simp add: write_failing_def no_faults_def)
  have hit: "fst (shouldDebounce sample_runtime no_faults 1735725610000 ENTER entered_world)"
    using entered_marker marker_ENTER_hit [of ENTER]
    by (simp add: shouldDebounce_def no_faults_simps)
  with t [of no_faults sample_runtime 1735725610000 ENTER entered_world]
  have three: "shouldDebounce sample_runtime no_faults 1735725610000 ENTER entered_world
      = (True, entered_world)"
    by (simp add: prod_eq_iff)
  from one two three show ?thesis by simp
qed

subsection \<open>The task: what each step leaves alone, and how a run ends\<close>

lemma shouldDebounce_frame:
  "k \<noteq> LAST_EVENT_KEY \<Longrightarrow> storage (snd (shouldDebounce P F now d w)) k = storage w k"
  "geofencing_started (snd (shouldDebounce P F now d w)) = geofencing_started w"
  "queue (snd (shouldDebounce P F now d w)) = queue w"
  "network (snd (shouldDebounce P F now d w)) = network w"
  "notified (snd (shouldDebounce P F now d w)) = notified w"
  by (auto simp: shouldDebounce_def split: option.splits)

lemma getActiveEventId_frame:
  "k \<noteq> ACTIVE_EVENT_META_KEY \<Longrightarrow> k \<noteq> ACTIVE_EVENT_KEY \<Longrightarrow>
     storage (snd (getActiveEventId P F now w)) k = storage w k"
  "queue (snd (getActiveEventId P F now w)) = queue w"
  "network (snd (getActiveEventId P F now w)) = network w"
  "notified (snd (getActiveEventId P F now w)) = notified w"
  by (auto simp: getActiveEventId_def safeStopGeofencingIfStarted_def try_removeItem_def Let_def
      split: option.splits)

lemma getActiveEventId_reads_context_only:
  assumes "storage w' ACTIVE_EVENT_META_KEY = storage w ACTIVE_EVENT_META_KEY"
      and "storage w' ACTIVE_EVENT_KEY = storage w ACTIVE_EVENT_KEY"
  shows "fst (getActiveEventId P F now w') = fst (getActiveEventId P F now w)"
  using assms meta_read_only_meta_key [OF assms(1), of P F now]
  by (auto simp: getActiveEventId_def Let_def split: option.splits)

lemma flushOnce_frame:
  "storage (flushOnce deliver w) = storage w"
  "geofencing_started (flushOnce deliver w) = geofencing_started w"
  "notified (flushOnce deliver w) = notified w"
  by (simp_all add: flushOnce_def split: prod.splits)

lemma process_transition_frame:
  "storage (snd (process_transition P S e r d a w)) = storage w"
  "geofencing_started (snd (process_transition P S e r d a w)) = geofencing_started w"
  by (simp_all add: process_transition_def Let_def flushOnce_frame enqueue_def split: prod.splits)

lemma process_transition_outcome:
  "\<exists>p ok. fst (process_transition P S e r d a w) = Processed p ok \<and> event_id p = e \<and> dir p = d
      \<and> region_id p = r \<and> at_iso p = a"
  by (simp add: process_transition_def Let_def split: prod.splits)

text \<open>The four ways a run of the task ends.\<close>

lemma task_failed:
  "error body = Some err \<Longrightarrow> fst (geofence_task P F S C body w) = Task_failed"
  by (simp add: geofence_task_def)

lemma task_debounced:
  assumes "error body = None"
      and "fst (shouldDebounce P F (debounce_now C) (signal_dir body) w)"
  shows "geofence_task P F S C body w
         = (Debounced, snd (shouldDebounce P F (debounce_now C) (signal_dir body) w))"
proof (cases "shouldDebounce P F (debounce_now C) (signal_dir body) w")
  case (Pair hit w1)
  with assms show ?thesis
    by (simp add: geofence_task_def)
qed

lemma task_continues:
  assumes "error body = None"
      and "\<not> fst (shouldDebounce P F (debounce_now C) (signal_dir body) w)"
  shows "geofence_task P F S C body w =
     (let w1 = snd (shouldDebounce P F (debounce_now C) (signal_dir body) w);
          got = getActiveEventId P F (ctx_now C) w1
      in case resolve_eventId (fst got) (region_identifier body) of
           None \<Rightarrow> (No_event, snd got)
         | Some e \<Rightarrow>
             if e = [] then (No_event, snd got)
             else process_transition P S e (region_identifier body) (signal_dir body)
                    (nowIso P (at_now C)) (snd got))"
proof (cases "shouldDebounce P F (debounce_now C) (signal_dir body) w")
  case (Pair hit w1)
  with assms have run: "shouldDebounce P F (debounce_now C) (signal_dir body) w = (False, w1)"
    by simp
  obtain stored w2 where got: "getActiveEventId P F (ctx_now C) w1 = (stored, w2)"
    by (cases "getActiveEventId P F (ctx_now C) w1")
  from assms(1) run got show ?thesis
    by (simp add: geofence_task_def Let_def split: option.splits)
qed

text \<open>The marker: when it is written, and when it makes the next signal a repeat.\<close>

lemma shouldDebounce_miss_writes:
  assumes "\<not> getItem_throws F LAST_EVENT_KEY" and "\<not> setItem_throws F LAST_EVENT_KEY"
      and "parse_last P (storage w LAST_EVENT_KEY) \<noteq> None"
      and "\<not> fst (shouldDebounce P F now d w)"
  shows "snd (shouldDebounce P F now d w) =
           w\<lparr>storage := (storage w)(LAST_EVENT_KEY \<mapsto> JSON_stringify P (marker_json P d now))\<rparr>"
  using assms by (auto simp: shouldDebounce_def split: option.splits if_splits)

lemma stored_marker_hit:
  assumes "\<not> getItem_throws F LAST_EVENT_KEY"
      and "storage w LAST_EVENT_KEY = Some (JSON_stringify P (marker_json P d' t))"
      and "JSON_stringify P (marker_json P d' t) \<noteq> []"
      and "JSON_parse P (JSON_stringify P (marker_json P d' t)) = Some (marker_json P d' t)"
      and "Date_parse P (toISOString P t) = Some t"
  shows "fst (shouldDebounce P F now d w) = (d' = d \<and> now - t < 30000)"
    and "fst (shouldDebounce P F now d w) \<Longrightarrow> snd (shouldDebounce P F now d w) = w"
proof -
  from assms(2,3,4) have "parse_last P (storage w LAST_EVENT_KEY) = Some (Some (marker_json P d' t))"
    by (simp add: parse_last_def)
  moreover from debounce_hit_marker [OF assms(5)]
  have "debounce_hit P now d (Some (marker_json P d' t)) = (d' = d \<and> now - t < 30000)"
    by (simp add: marker_json_def)
  ultimately show "fst (shouldDebounce P F now d w) = (d' = d \<and> now - t < 30000)"
    and "fst (shouldDebounce P F now d w) \<Longrightarrow> snd (shouldDebounce P F now d w) = w"
    using assms(1) by (auto simp: shouldDebounce_def)
qed

lemma task_outcome_debounced:
  assumes "error body = None"
  shows "(fst (geofence_task P F S C body w) = Debounced)
         = fst (shouldDebounce P F (debounce_now C) (signal_dir body) w)"
proof (cases "fst (shouldDebounce P F (debounce_now C) (signal_dir body) w)")
  case True
  with task_debounced [OF assms this] show ?thesis by simp
next
  case False
  have "fst (process_transition P S e r d a w') \<noteq> Debounced" for e r d a w'
    by (simp add: process_transition_def Let_def split: prod.splits)
  with task_continues [OF assms False, of S] False show ?thesis
    by (auto simp: Let_def split: option.splits)
qed

lemma task_marks:
  assumes "error body = None"
      and "\<not> getItem_throws F LAST_EVENT_KEY" and "\<not> setItem_throws F LAST_EVENT_KEY"
      and "parse_last P (storage w LAST_EVENT_KEY) \<noteq> None"
      and "fst (geofence_task P F S C body w) \<noteq> Debounced"
  shows "storage (snd (geofence_task P F S C body w)) LAST_EVENT_KEY
         = Some (JSON_stringify P (marker_json P (signal_dir body) (debounce_now C)))"
proof -
  let ?sd = "shouldDebounce P F (debounce_now C) (signal_dir body) w"
  from assms(1,5) have miss: "\<not> fst ?sd"
    using task_outcome_debounced by blast
  from shouldDebounce_miss_writes [OF assms(2,3,4) miss]
  have w1: "storage (snd ?sd) LAST_EVENT_KEY
      = Some (JSON_stringify P (marker_json P (signal_dir body) (debounce_now C)))"
    by simp
  have "storage (snd (geofence_task P F S C body w)) LAST_EVENT_KEY = storage (snd ?sd) LAST_EVENT_KEY"
    using task_continues [OF assms(1) miss, of S]
    by (auto simp: Let_def process_transition_frame getActiveEventId_frame keys_distinct
        split: option.splits)
  with w1 show ?thesis by simp
qed

subsection \<open>No record without an event\<close>

text \<open>
  C1: in a run of the task where the stored context yields no event id and the identifier
  of the region gives none either (there is no identifier, or it does not start with
  \<open>event:\<close>, or nothing but white space follows the prefix), no record is built:
  the run does not end in \<open>Processed\<close>, the log of requests to the server is the one
  before the run, and so is the queue.
\<close>

theorem no_event_no_record:
  assumes "fst (getActiveEventId P F (ctx_now C) w) = None"
      and "\<And>r. region_identifier body = Some r \<Longrightarrow> startsWith r ''event:''
             \<Longrightarrow> trim (drop (length ''event:'') r) = []"
  shows "(\<forall>p ok. fst (geofence_task P F S C body w) \<noteq> Processed p ok)
       \<and> network (snd (geofence_task P F S C body w)) = network w
       \<and> queue (snd (geofence_task P F S C body w)) = queue w"
proof (cases "error body")
  case (Some err)
  then show ?thesis
    by (simp add: geofence_task_def)
next
  case None
  let ?sd = "shouldDebounce P F (debounce_now C) (signal_dir body) w"
  show ?thesis
  proof (cases "fst ?sd")
    case True
    from task_debounced [OF None True, of S] show ?thesis
      by (simp add: shouldDebounce_frame)
  next
    case False
    let ?got = "getActiveEventId P F (ctx_now C) (snd ?sd)"
    have "fst ?got = fst (getActiveEventId P F (ctx_now C) w)"
      by (rule getActiveEventId_reads_context_only) (simp_all add: shouldDebounce_frame keys_distinct)
    with assms(1) have stored: "fst ?got = None"
      by simp
    from assms(2) have "resolve_eventId None (region_identifier body) = None"
      by (auto simp: resolve_eventId_def Let_def split: option.splits)
    with stored task_continues [OF None False, of S]
    have "geofence_task P F S C body w = (No_event, snd ?got)"
      by (simp add: Let_def)
    then show ?thesis
      by (simp add: getActiveEventId_frame shouldDebounce_frame)
  qed
qed

lemma fresh_debounce:
  "shouldDebounce sample_runtime no_faults 1735725600000 ENTER fresh_world
   = (False, fresh_world\<lparr>storage := [LAST_EVENT_KEY \<mapsto> marker_ENTER_raw]\<rparr>)"
proof -
  have "JSON_stringify sample_runtime (marker_json sample_runtime ENTER 1735725600000) = marker_ENTER_raw"
    by (simp add: marker_json_def sample_runtime_def marker_ENTER_json_def meta_E1_json_def)
  then show ?thesis
    by (simp add: shouldDebounce_def no_faults_simps parse_last_def fresh_world_def debounce_hit_def)
qed

lemma venue_unresolved: "resolve_eventId None (Some ''venue'') = None"
  by (simp add: resolve_eventId_def startsWith_def)

lemma venue_run:
  "geofence_task sample_runtime no_faults accepting_server clock_100000 venue_signal fresh_world
   = (No_event, fresh_world\<lparr>storage := [LAST_EVENT_KEY \<mapsto> marker_ENTER_raw]\<rparr>)"
proof -
  let ?w1 = "fresh_world\<lparr>storage := [LAST_EVENT_KEY \<mapsto> marker_ENTER_raw]\<rparr>"
  have "getActiveEventId sample_runtime no_faults 1735725600000 ?w1 = (None, ?w1)"
    by (rule cleared_reads_absent) (simp_all add: fresh_world_def keys_distinct)
  with fresh_debounce venue_unresolved show ?thesis
    by (simp add: geofence_task_def venue_signal_def signal_dir_def clock_100000_def)
qed

theorem no_event_no_record_witness:
  "fst (getActiveEventId sample_runtime no_faults (ctx_now clock_100000) fresh_world) = None
   \<and> region_identifier venue_signal = Some ''venue'' \<and> \<not> startsWith ''venue'' ''event:''
   \<and> geofence_task sample_runtime no_faults accepting_server clock_100000 venue_signal fresh_world
       = (No_event, fresh_world\<lparr>storage := [LAST_EVENT_KEY \<mapsto> marker_ENTER_raw]\<rparr>)
   \<and> network (snd (geofence_task sample_runtime no_faults accepting_server clock_100000
         venue_signal fresh_world)) = []
   \<and> queue (snd (geofence_task sample_runtime no_faults accepting_server clock_100000
         venue_signal fresh_world)) = []"
proof -
  have absent: "fst (getActiveEventId sample_runtime no_faults (ctx_now clock_100000) fresh_world) = None"
    by (simp add: cleared_reads_absent fresh_world_def)
  have region: "region_identifier venue_signal = Some ''venue''" "\<not> startsWith ''venue'' ''event:''"
    by (simp_all add: venue_signal_def startsWith_def)
  then have "trim (drop (length ''event:'') r) = []"
    if "region_identifier venue_signal = Some r" "startsWith r ''event:''" for r
    using that by simp
  from no_event_no_record [OF absent this, of venue_signal accepting_server]
  have "network (snd (geofence_task sample_runtime no_faults accepting_server clock_100000
         venue_signal fresh_world)) = []
     \<and> queue (snd (geofence_task sample_runtime no_faults accepting_server clock_100000
         venue_signal fresh_world)) = []"
    by (simp add: fresh_world_def)
  with absent region venue_run show ?thesis
    by simp
qed

subsection \<open>The marker of a dropped signal\<close>

lemma task_repeat_debounced:
  assumes "error body = None"
      and "\<not> getItem_throws F LAST_EVENT_KEY"
      and "storage w LAST_EVENT_KEY = Some (JSON_stringify P (marker_json P d t))"
      and "marker_codec_ok P d t"
      and "signal_dir body = d"
      and "debounce_now C - t < 30000"
  shows "geofence_task P F S C body w = (Debounced, w)"
proof -
  from assms(4) have codec: "JSON_stringify P (marker_json P d t) \<noteq> []"
    "JSON_parse P (JSON_stringify P (marker_json P d t)) = Some (marker_json P d t)"
    "Date_parse P (toISOString P t) = Some t"
    by (simp_all add: marker_codec_ok_def)
  from stored_marker_hit [OF assms(2,3) codec, of "debounce_now C" d] assms(6)
  have hit: "fst (shouldDebounce P F (debounce_now C) d w)"
    and same: "snd (shouldDebounce P F (debounce_now C) d w) = w"
    by simp_all
  with task_debounced [OF assms(1), of P F C w S] assms(5) show ?thesis
    by simp
qed

text \<open>
  C10: the task runs \<open>shouldDebounce\<close> before it resolves the event id. So a run that
  ends without an event id has already written the marker of its signal (the storage of
  the marker working, the older marker being absent or readable). A later signal of the
  same direction, less than 30 seconds after it, is then suppressed in any world that
  still holds that marker, whatever the active-event context has become in between.
\<close>

theorem dropped_signal_debounces_next:
  assumes "error b1 = None" and "error b2 = None"
      and "\<not> getItem_throws F1 LAST_EVENT_KEY" and "\<not> setItem_throws F1 LAST_EVENT_KEY"
      and "\<not> getItem_throws F2 LAST_EVENT_KEY"
      and "parse_last P (storage w LAST_EVENT_KEY) \<noteq> None"
      and "marker_codec_ok P (signal_dir b1) (debounce_now C1)"
      and "fst (geofence_task P F1 S1 C1 b1 w) = No_event"
      and "storage w2 LAST_EVENT_KEY = storage (snd (geofence_task P F1 S1 C1 b1 w)) LAST_EVENT_KEY"
      and "signal_dir b2 = signal_dir b1"
      and "debounce_now C2 - debounce_now C1 < 30000"
  shows "storage (snd (geofence_task P F1 S1 C1 b1 w)) LAST_EVENT_KEY
           = Some (JSON_stringify P (marker_json P (signal_dir b1) (debounce_now C1)))
       \<and> geofence_task P F2 S2 C2 b2 w2 = (Debounced, w2)"
proof -
  from assms(8) have "fst (geofence_task P F1 S1 C1 b1 w) \<noteq> Debounced"
    by simp
  from task_marks [OF assms(1,3,4,6) this]
  have marked: "storage (snd (geofence_task P F1 S1 C1 b1 w)) LAST_EVENT_KEY
           = Some (JSON_stringify P (marker_json P (signal_dir b1) (debounce_now C1)))" .
  with assms(9) have "storage w2 LAST_EVENT_KEY
      = Some (JSON_stringify P (marker_json P (signal_dir b1) (debounce_now C1)))"
    by simp
  from task_repeat_debounced [OF assms(2,5) this assms(7,10,11)] marked show ?thesis
    by simp
qed

lemma marker_ENTER_codec: "marker_codec_ok sample_runtime ENTER 1735725600000"
  by (simp add: marker_codec_ok_def marker_json_def sample_runtime_def marker_ENTER_json_def
      marker_ENTER_raw_def meta_E1_json_def meta_E1_raw_def)

lemma arm_after_drop:
  "setActiveEventMeta sample_runtime no_faults 1735725600000
     (Some \<lparr>m_eventId = ''E1'', m_endUtc = Some ''2025-01-01T12:00:00.000Z''\<rparr>)
     (fresh_world\<lparr>storage := [LAST_EVENT_KEY \<mapsto> marker_ENTER_raw]\<rparr>)
   = entered_world"
proof -
  have "trim ''E1'' = ''E1''"
    by (simp add: trim_def is_ws_def)
  moreover have "JSON_stringify sample_runtime
       (meta_json \<lparr>meta_event_id = ''E1'', active_event_end_utc = Some ''2025-01-01T12:00:00.000Z'',
                   saved_at = safeIsoNow sample_runtime 1735725600000\<rparr>) = meta_E1_raw"
    by (simp add: meta_json_def safeIsoNow_def sample_runtime_def meta_E1_json_def)
  ultimately show ?thesis
    by (auto simp: try_setItem_def no_faults_simps entered_world_def armed_world_def
        fresh_world_def fun_eq_iff keys_distinct)
qed

lemma window_end:
  "parseUtcMs sample_runtime (Some ''2025-01-01T12:00:00.000Z'') = Some 1735732800000"
  by (simp add: parseUtcMs_def sample_runtime_def)

lemma entered_event: "fst (getActiveEventId sample_runtime no_faults 1735725610000 entered_world) = Some ''E1''"
proof -
  have "fst (getActiveEventId sample_runtime no_faults 1735725610000 entered_world)
      = fst (getActiveEventId sample_runtime no_faults 1735725610000 armed_world)"
    by (rule getActiveEventId_reads_context_only) (simp_all add: entered_world_def keys_distinct)
  also have "\<dots> = Some ''E1''"
    by (simp add: getActiveEventId_def armed_meta window_end)
  finally show ?thesis .
qed

theorem dropped_signal_debounces_next_witness:
  "geofence_task sample_runtime no_faults accepting_server clock_100000 venue_signal fresh_world
     = (No_event, fresh_world\<lparr>storage := [LAST_EVENT_KEY \<mapsto> marker_ENTER_raw]\<rparr>)
   \<and> setActiveEventMeta sample_runtime no_faults 1735725600000
       (Some \<lparr>m_eventId = ''E1'', m_endUtc = Some ''2025-01-01T12:00:00.000Z''\<rparr>)
       (fresh_world\<lparr>storage := [LAST_EVENT_KEY \<mapsto> marker_ENTER_raw]\<rparr>) = entered_world
   \<and> fst (getActiveEventId sample_runtime no_faults 1735725610000 entered_world) = Some ''E1''
   \<and> geofence_task sample_runtime no_faults accepting_server clock_100010 venue_signal entered_world
     = (Debounced, entered_world)"
proof -
  let ?run1 = "geofence_task sample_runtime no_faults accepting_server clock_100000 venue_signal
      fresh_world"
  have cell: "storage entered_world LAST_EVENT_KEY = storage (snd ?run1) LAST_EVENT_KEY"
    by (simp add: venue_run entered_world_def)
  have "geofence_task sample_runtime no_faults accepting_server clock_100010 venue_signal entered_world
     = (Debounced, entered_world)"
    using dropped_signal_debounces_next [where P = sample_runtime and ?F1.0 = no_faults
        and ?F2.0 = no_faults and ?S1.0 = accepting_server and ?S2.0 = accepting_server
        and ?C1.0 = clock_100000 and ?C2.0 = clock_100010 and ?b1.0 = venue_signal
        and ?b2.0 = venue_signal and w = fresh_world and ?w2.0 = entered_world]
      cell marker_ENTER_codec venue_run
    by (simp add: venue_signal_def no_faults_simps parse_last_def fresh_world_def signal_dir_def
        clock_100000_def clock_100010_def)
  with venue_run arm_after_drop entered_event show ?thesis
    by simp
qed

subsection \<open>Debounce: the window of one direction\<close>

lemma nat_text_small: "n < 10 \<Longrightarrow> nat_text n = [digit_char n]"
  by (simp add: nat_text.simps)

lemma nat_text_large: "10 \<le> n \<Longrightarrow> nat_text n = nat_text (n div 10) @ [digit_char (n mod 10)]"
  by (subst nat_text.simps) simp

lemma task_other_direction_processed:
  assumes "error body = None"
      and "\<not> fst (shouldDebounce P F (debounce_now C) (signal_dir body) w)"
      and "resolve_eventId (fst (getActiveEventId P F (ctx_now C) w)) (region_identifier body) = Some e"
      and "e \<noteq> []"
  shows "\<exists>p ok. fst (geofence_task P F S C body w) = Processed p ok
           \<and> dir p = signal_dir body \<and> event_id p = e"
proof -
  let ?sd = "shouldDebounce P F (debounce_now C) (signal_dir body) w"
  have "fst (getActiveEventId P F (ctx_now C) (snd ?sd)) = fst (getActiveEventId P F (ctx_now C) w)"
    by (rule getActiveEventId_reads_context_only) (simp_all add: shouldDebounce_frame keys_distinct)
  with assms(3,4) task_continues [OF assms(1,2), of S]
  have "geofence_task P F S C body w =
      process_transition P S e (region_identifier body) (signal_dir body) (nowIso P (at_now C))
        (snd (getActiveEventId P F (ctx_now C) (snd ?sd)))"
    by (simp add: Let_def)
  with process_transition_outcome [of P S e "region_identifier body" "signal_dir body"
      "nowIso P (at_now C)" "snd (getActiveEventId P F (ctx_now C) (snd ?sd))"]
  show ?thesis by auto
qed

text \<open>
  C2. The storage of the marker working: with no marker stored, \<open>shouldDebounce\<close> writes
  the marker of the signal and returns \<open>false\<close>. With a marker stored, of direction
  \<open>d'\<close> and instant \<open>t\<close>, it returns \<open>true\<close> and leaves the world as it is when
  \<open>d'\<close> is the direction asked about and less than 30 seconds (30000 ms) have passed
  since \<open>t\<close>; otherwise it writes the new marker and returns \<open>false\<close>.
  Consequently, for two runs of the task of which the first built a record and the second
  comes less than 30 seconds later: a second signal of the same direction is suppressed,
  so that one record is built; a second signal of the other direction, its event id being
  resolvable, builds a second record.
\<close>

theorem debounce_same_direction_window:
  assumes "\<not> getItem_throws F LAST_EVENT_KEY" and "\<not> setItem_throws F LAST_EVENT_KEY"
  shows
    "(storage w LAST_EVENT_KEY = None \<longrightarrow>
        shouldDebounce P F now d w =
          (False, w\<lparr>storage := (storage w)(LAST_EVENT_KEY \<mapsto>
                                   JSON_stringify P (marker_json P d now))\<rparr>))
     \<and> (storage w LAST_EVENT_KEY = Some raw \<and> raw \<noteq> []
          \<and> JSON_parse P raw = Some (JObj [(''dir'', JStr (dir_text d')), (''at'', JStr a)])
          \<and> Date_parse P a = Some t \<longrightarrow>
        shouldDebounce P F now d w =
          (if d' = d \<and> now - t < 30000 then (True, w)
           else (False, w\<lparr>storage := (storage w)(LAST_EVENT_KEY \<mapsto>
                                        JSON_stringify P (marker_json P d now))\<rparr>)))
     \<and> (error b1 = None \<and> error b2 = None \<and> \<not> getItem_throws F2 LAST_EVENT_KEY
          \<and> parse_last P (storage w LAST_EVENT_KEY) \<noteq> None
          \<and> marker_codec_ok P (signal_dir b1) (debounce_now C1)
          \<and> fst (geofence_task P F S1 C1 b1 w) = Processed p1 ok1
          \<and> debounce_now C2 - debounce_now C1 < 30000 \<longrightarrow>
        (signal_dir b2 = signal_dir b1 \<longrightarrow>
           geofence_task P F2 S2 C2 b2 (snd (geofence_task P F S1 C1 b1 w))
             = (Debounced, snd (geofence_task P F S1 C1 b1 w)))
        \<and> (signal_dir b2 \<noteq> signal_dir b1
            \<and> resolve_eventId
                 (fst (getActiveEventId P F2 (ctx_now C2) (snd (geofence_task P F S1 C1 b1 w))))
                 (region_identifier b2) = Some e
            \<and> e \<noteq> [] \<longrightarrow>
           (\<exists>p2 ok2. fst (geofence_task P F2 S2 C2 b2 (snd (geofence_task P F S1 C1 b1 w)))
                         = Processed p2 ok2
                      \<and> dir p2 = signal_dir b2 \<and> event_id p2 = e)))"
proof (intro conjI impI)
  assume "storage w LAST_EVENT_KEY = None"
  with assms show "shouldDebounce P F now d w =
          (False, w\<lparr>storage := (storage w)(LAST_EVENT_KEY \<mapsto>
                                   JSON_stringify P (marker_json P d now))\<rparr>)"
    by (simp add: shouldDebounce_def parse_last_def debounce_hit_None)
next
  assume a: "storage w LAST_EVENT_KEY = Some raw \<and> raw \<noteq> []
          \<and> JSON_parse P raw = Some (JObj [(''dir'', JStr (dir_text d')), (''at'', JStr a)])
          \<and> Date_parse P a = Some t"
  then have "parse_last P (storage w LAST_EVENT_KEY)
      = Some (Some (JObj [(''dir'', JStr (dir_text d')), (''at'', JStr a)]))"
    by (simp add: parse_last_def)
  moreover from a debounce_hit_marker [of P a t now d d']
  have "debounce_hit P now d (Some (JObj [(''dir'', JStr (dir_text d')), (''at'', JStr a)]))
      = (d' = d \<and> now - t < 30000)"
    by simp
  ultimately show "shouldDebounce P F now d w =
          (if d' = d \<and> now - t < 30000 then (True, w)
           else (False, w\<lparr>storage := (storage w)(LAST_EVENT_KEY \<mapsto>
                                        JSON_stringify P (marker_json P d now))\<rparr>))"
    using assms by (simp add: shouldDebounce_def)
next
  let ?w1 = "snd (geofence_task P F S1 C1 b1 w)"
  assume h: "error b1 = None \<and> error b2 = None \<and> \<not> getItem_throws F2 LAST_EVENT_KEY
          \<and> parse_last P (storage w LAST_EVENT_KEY) \<noteq> None
          \<and> marker_codec_ok P (signal_dir b1) (debounce_now C1)
          \<and> fst (geofence_task P F S1 C1 b1 w) = Processed p1 ok1
          \<and> debounce_now C2 - debounce_now C1 < 30000"
  then have "fst (geofence_task P F S1 C1 b1 w) \<noteq> Debounced"
    by simp
  with h task_marks [OF _ assms, of b1 P w S1 C1]
  have marked: "storage ?w1 LAST_EVENT_KEY
      = Some (JSON_stringify P (marker_json P (signal_dir b1) (debounce_now C1)))"
    by simp
  {
    assume "signal_dir b2 = signal_dir b1"
    with h marked task_repeat_debounced [of b2 F2 ?w1 P "signal_dir b1" "debounce_now C1" C2 S2]
    show "geofence_task P F2 S2 C2 b2 ?w1 = (Debounced, ?w1)"
      by simp
  next
    assume o: "signal_dir b2 \<noteq> signal_dir b1
            \<and> resolve_eventId (fst (getActiveEventId P F2 (ctx_now C2) ?w1))
                 (region_identifier b2) = Some e
            \<and> e \<noteq> []"
    from h have codec: "JSON_stringify P (marker_json P (signal_dir b1) (debounce_now C1)) \<noteq> []"
      "JSON_parse P (JSON_stringify P (marker_json P (signal_dir b1) (debounce_now C1)))
         = Some (marker_json P (signal_dir b1) (debounce_now C1))"
      "Date_parse P (toISOString P (debounce_now C1)) = Some (debounce_now C1)"
      by (simp_all add: marker_codec_ok_def)
    from h have g2: "\<not> getItem_throws F2 LAST_EVENT_KEY"
      by simp
    from stored_marker_hit(1) [OF g2 marked codec, of "debounce_now C2" "signal_dir b2"] o
    have "\<not> fst (shouldDebounce P F2 (debounce_now C2) (signal_dir b2) ?w1)"
      by auto
    with h o task_other_direction_processed [of b2 P F2 C2 ?w1 e S2]
    show "\<exists>p2 ok2. fst (geofence_task P F2 S2 C2 b2 ?w1) = Processed p2 ok2
                      \<and> dir p2 = signal_dir b2 \<and> event_id p2 = e"
      by simp
  }
qed

lemma armed_debounce:
  "shouldDebounce sample_runtime no_faults 1735725600000 ENTER armed_world = (False, entered_world)"
proof -
  have "JSON_stringify sample_runtime (marker_json sample_runtime ENTER 1735725600000) = marker_ENTER_raw"
    by (simp add: marker_json_def sample_runtime_def marker_ENTER_json_def meta_E1_json_def)
  moreover have "storage armed_world LAST_EVENT_KEY = None"
    by (simp add: armed_world_def fresh_world_def keys_distinct)
  ultimately show ?thesis
    by (simp add: shouldDebounce_def no_faults_simps parse_last_def debounce_hit_def
        entered_world_def)
qed

lemma event_of_region: "resolve_eventId (Some ''E1'') (Some ''event:E1'') = Some ''E1''"
  by (simp add: resolve_eventId_def)

lemma sample_idem:
  "makeIdem sample_runtime ''E1'' (Some ''event:E1'') ENTER ''2025-01-01T10:00:00.000Z''
   = ''7b8a2e930f4255e614896236e29078485f562d1a738ed452a0486c397945e6a5''"
proof -
  have "slot_text sample_runtime ''2025-01-01T10:00:00.000Z'' = ''57857520''"
    by (simp add: slot_text_def sample_runtime_def DEBOUNCE_SEC_def int_text_def
        nat_text_small nat_text_large digit_char_def)
  then show ?thesis
    by (simp add: makeIdem_def idem_base_def region_text_def sample_runtime_def)
qed

lemma first_enter_run:
  "geofence_task sample_runtime no_faults accepting_server clock_100000 enter_signal armed_world
   = (Processed sample_payload True, checked_in_world)"
proof -
  have ctx: "getActiveEventId sample_runtime no_faults 1735725600000 entered_world
      = (Some ''E1'', entered_world)"
  proof -
    have "getActiveEventMetaUnsafe sample_runtime no_faults 1735725600000 entered_world
        = getActiveEventMetaUnsafe sample_runtime no_faults 1735725600000 armed_world"
      by (rule meta_read_only_meta_key) (simp add: entered_world_def keys_distinct)
    then show ?thesis
      by (simp add: getActiveEventId_def armed_meta window_end)
  qed
  have post: "process_transition sample_runtime accepting_server ''E1'' (Some ''event:E1'') ENTER
      ''2025-01-01T10:00:00.000Z'' entered_world = (Processed sample_payload True, checked_in_world)"
    by (simp add: process_transition_def Let_def sample_idem postToServer_def accepting_server_def
        sample_payload_def checked_in_world_def GEOFENCE_DEBUG_NOTI_def entered_world_def
        armed_world_def fresh_world_def)
  have "nowIso sample_runtime 1735725600000 = ''2025-01-01T10:00:00.000Z''"
    by (simp add: nowIso_def sample_runtime_def)
  with armed_debounce ctx event_of_region post show ?thesis
    by (simp add: geofence_task_def enter_signal_def signal_dir_def clock_100000_def)
qed

lemma checked_in_event:
  "fst (getActiveEventId sample_runtime no_faults 1735725610000 checked_in_world) = Some ''E1''"
proof -
  have "fst (getActiveEventId sample_runtime no_faults 1735725610000 checked_in_world)
      = fst (getActiveEventId sample_runtime no_faults 1735725610000 entered_world)"
    by (rule getActiveEventId_reads_context_only) (simp_all add: checked_in_world_def)
  with entered_event show ?thesis by simp
qed

theorem debounce_same_direction_window_witness:
  "shouldDebounce sample_runtime no_faults 1735725600000 ENTER armed_world = (False, entered_world)
   \<and> shouldDebounce sample_runtime no_faults 1735725610000 ENTER entered_world = (True, entered_world)
   \<and> \<not> fst (shouldDebounce sample_runtime no_faults 1735725610000 EXIT entered_world)
   \<and> geofence_task sample_runtime no_faults accepting_server clock_100000 enter_signal armed_world
       = (Processed sample_payload True, checked_in_world)
   \<and> geofence_task sample_runtime no_faults accepting_server clock_100010 enter_signal checked_in_world
       = (Debounced, checked_in_world)
   \<and> (\<exists>p2 ok2.
         fst (geofence_task sample_runtime no_faults accepting_server clock_100010 exit_signal
                checked_in_world) = Processed p2 ok2
         \<and> dir p2 = EXIT \<and> event_id p2 = ''E1'')"
proof -
  have io: "\<not> getItem_throws no_faults LAST_EVENT_KEY" "\<not> setItem_throws no_faults LAST_EVENT_KEY"
    by (simp_all add: no_faults_simps)
  note fresh = debounce_same_direction_window [OF io, THEN conjunct1, rule_format]
  note stored = debounce_same_direction_window [OF io, THEN conjunct2, THEN conjunct1, rule_format]
  note pair = debounce_same_direction_window [OF io, THEN conjunct2, THEN conjunct2, rule_format]
  have written: "JSON_stringify sample_runtime (marker_json sample_runtime ENTER 1735725600000)
      = marker_ENTER_raw"
    by (simp add: marker_json_def sample_runtime_def marker_ENTER_json_def meta_E1_json_def)
  have "storage armed_world LAST_EVENT_KEY = None"
    by (simp add: armed_world_def fresh_world_def keys_distinct)
  from fresh [OF this, of sample_runtime 1735725600000 ENTER] written
  have one: "shouldDebounce sample_runtime no_faults 1735725600000 ENTER armed_world
      = (False, entered_world)"
    by (simp add: entered_world_def)
  have marker: "storage entered_world LAST_EVENT_KEY = Some marker_ENTER_raw \<and> marker_ENTER_raw \<noteq> []
      \<and> JSON_parse sample_runtime marker_ENTER_raw
          = Some (JObj [(''dir'', JStr (dir_text ENTER)), (''at'', JStr ''2025-01-01T10:00:00.000Z'')])
      \<and> Date_parse sample_runtime ''2025-01-01T10:00:00.000Z'' = Some 1735725600000"
    by (simp add: entered_world_def sample_runtime_def marker_ENTER_raw_def marker_ENTER_json_def
        meta_E1_raw_def)
  from stored [OF marker, of 1735725610000 ENTER]
  have two: "shouldDebounce sample_runtime no_faults 1735725610000 ENTER entered_world
      = (True, entered_world)"
    by simp
  from stored [OF marker, of 1735725610000 EXIT]
  have three: "\<not> fst (shouldDebounce sample_runtime no_faults 1735725610000 EXIT entered_world)"
    by simp
  have before: "error enter_signal = None \<and> error enter_signal = None
      \<and> \<not> getItem_throws no_faults LAST_EVENT_KEY
      \<and> parse_last sample_runtime (storage armed_world LAST_EVENT_KEY) \<noteq> None
      \<and> marker_codec_ok sample_runtime (signal_dir enter_signal) (debounce_now clock_100000)
      \<and> fst (geofence_task sample_runtime no_faults accepting_server clock_100000 enter_signal
               armed_world) = Processed sample_payload True
      \<and> debounce_now clock_100010 - debounce_now clock_100000 < 30000"
    using marker_ENTER_codec first_enter_run
    by (simp add: enter_signal_def no_faults_simps parse_last_def armed_world_def fresh_world_def
        keys_distinct signal_dir_def clock_100000_def clock_100010_def)
  have before': "error enter_signal = None \<and> error exit_signal = None
      \<and> \<not> getItem_throws no_faults LAST_EVENT_KEY
      \<and> parse_last sample_runtime (storage armed_world LAST_EVENT_KEY) \<noteq> None
      \<and> marker_codec_ok sample_runtime (signal_dir enter_signal) (debounce_now clock_100000)
      \<and> fst (geofence_task sample_runtime no_faults accepting_server clock_100000 enter_signal
               armed_world) = Processed sample_payload True
      \<and> debounce_now clock_100010 - debounce_now clock_100000 < 30000"
    using before by (simp add: exit_signal_def)
  from pair [OF before, of accepting_server "''E1''"]
  have four: "geofence_task sample_runtime no_faults accepting_server clock_100010 enter_signal
      checked_in_world = (Debounced, checked_in_world)"
    by (simp add: first_enter_run)
  have later: "signal_dir exit_signal \<noteq> signal_dir enter_signal
      \<and> resolve_eventId (fst (getActiveEventId sample_runtime no_faults (ctx_now clock_100010)
            checked_in_world)) (region_identifier exit_signal) = Some ''E1''
      \<and> ''E1'' \<noteq> []"
    using checked_in_event event_of_region
    by (simp add: signal_dir_def exit_signal_def enter_signal_def clock_100010_def)
  from pair [OF before', of accepting_server "''E1''"] later
  have five: "\<exists>p2 ok2.
         fst (geofence_task sample_runtime no_faults accepting_server clock_100010 exit_signal
                checked_in_world) = Processed p2 ok2
         \<and> dir p2 = EXIT \<and> event_id p2 = ''E1''"
    by (simp add: first_enter_run signal_dir_def exit_signal_def)
  from one two three four five first_enter_run show ?thesis
    by simp
qed

subsection \<open>Flushing the queue\<close>

lemma flush_records_shape:
  "case flush_records deliver q s of
     (attempted, remaining, s') \<Rightarrow>
       length remaining \<le> length q
       \<and> remaining = drop (length q - length remaining) q
       \<and> attempted = take (Suc (length q - length remaining)) q
       \<and> s' = after_attempts deliver attempted s"
proof (induction q arbitrary: s)
  case Nil
  show ?case by simp
next
  case (Cons p ps)
  show ?case
  proof (cases "fst (deliver s p)")
    case False
    then obtain s1 where "deliver s p = (False, s1)"
      by (cases "deliver s p") simp
    then show ?thesis
      by simp
  next
    case True
    obtain s1 where d: "deliver s p = (True, s1)"
      using True by (cases "deliver s p") simp
    obtain att rest s2 where f: "flush_records deliver ps s1 = (att, rest, s2)"
      by (cases "flush_records deliver ps s1") auto
    from Cons.IH [of s1] f have ih: "length rest \<le> length ps"
      "rest = drop (length ps - length rest) ps"
      "att = take (Suc (length ps - length rest)) ps"
      "s2 = after_attempts deliver att s1"
      by simp_all
    from ih(1) have n: "Suc (length ps) - length rest = Suc (length ps - length rest)"
      by simp
    from d f ih n show ?thesis
      by simp
  qed
qed

lemma flush_records_outcomes:
  "case flush_records deliver q s of
     (attempted, remaining, s') \<Rightarrow>
       (\<forall>i < length q - length remaining.
           fst (deliver (after_attempts deliver (take i q) s) (q ! i)))
       \<and> (remaining \<noteq> [] \<longrightarrow>
            \<not> fst (deliver (after_attempts deliver (take (length q - length remaining) q) s)
                   (q ! (length q - length remaining))))"
proof (induction q arbitrary: s)
  case Nil
  show ?case by simp
next
  case (Cons p ps)
  show ?case
  proof (cases "fst (deliver s p)")
    case False
    then obtain s1 where "deliver s p = (False, s1)"
      by (cases "deliver s p") simp
    then show ?thesis
      by simp
  next
    case True
    obtain s1 where d: "deliver s p = (True, s1)"
      using True by (cases "deliver s p") simp
    obtain att rest s2 where f: "flush_records deliver ps s1 = (att, rest, s2)"
      by (cases "flush_records deliver ps s1") auto
    from flush_records_shape [where deliver = deliver and q = ps and s = s1] f have len: "length rest \<le> length ps"
      by simp
    then have n: "Suc (length ps) - length rest = Suc (length ps - length rest)"
      by simp
    from Cons.IH [of s1] f
    have ih: "\<forall>i < length ps - length rest.
           fst (deliver (after_attempts deliver (take i ps) s1) (ps ! i))"
      "rest \<noteq> [] \<longrightarrow>
            \<not> fst (deliver (after_attempts deliver (take (length ps - length rest) ps) s1)
                   (ps ! (length ps - length rest)))"
      by simp_all
    have "fst (deliver (after_attempts deliver (take i (p # ps)) s) ((p # ps) ! i))"
      if "i < Suc (length ps - length rest)" for i
    proof (cases i)
      case 0
      with d show ?thesis by simp
    next
      case (Suc j)
      with that ih(1) d show ?thesis by simp
    qed
    with d f n ih(2) show ?thesis
      by simp
  qed
qed

text \<open>
  C5, on \<open>flushOnce\<close> as the specification describes it. For every queue and every
  \<open>deliver\<close>: the records handed to \<open>deliver\<close> are the first \<open>n + 1\<close> records of
  the queue, in the order of the queue (all of them when none fails); the first \<open>n\<close>
  were delivered with success and are the ones removed; when \<open>n\<close> is less than the
  length of the queue, the delivery of record \<open>n\<close> failed, that record and all later
  ones stay queued, and no later record was handed to \<open>deliver\<close>. The function has no
  outcome other than the new world: nothing is thrown.
\<close>

theorem flushOnce_in_order_until_failure:
  assumes "flush_records deliver (queue w) (network w) = (attempted, remaining, net)"
      and "n = length (queue w) - length remaining"
  shows "flushOnce deliver w = w\<lparr>queue := remaining, network := net\<rparr>
       \<and> n \<le> length (queue w)
       \<and> attempted = take (Suc n) (queue w)
       \<and> remaining = drop n (queue w)
       \<and> net = after_attempts deliver attempted (network w)
       \<and> (\<forall>i<n. fst (deliver (after_attempts deliver (take i (queue w)) (network w)) (queue w ! i)))
       \<and> (n < length (queue w) \<longrightarrow>
            \<not> fst (deliver (after_attempts deliver (take n (queue w)) (network w)) (queue w ! n)))"
proof -
  from flush_records_shape [where deliver = deliver and q = "queue w" and s = "network w"] assms
  have shape: "length remaining \<le> length (queue w)" "remaining = drop n (queue w)"
    "attempted = take (Suc n) (queue w)" "net = after_attempts deliver attempted (network w)"
    by simp_all
  from flush_records_outcomes [where deliver = deliver and q = "queue w" and s = "network w"] assms
  have outcomes:
    "\<forall>i<n. fst (deliver (after_attempts deliver (take i (queue w)) (network w)) (queue w ! i))"
    "remaining \<noteq> [] \<longrightarrow>
       \<not> fst (deliver (after_attempts deliver (take n (queue w)) (network w)) (queue w ! n))"
    by simp_all
  from shape(1) assms(2) have "n < length (queue w) \<longrightarrow> remaining \<noteq> []"
    by auto
  with outcomes(2)
  have failed: "n < length (queue w) \<longrightarrow>
      \<not> fst (deliver (after_attempts deliver (take n (queue w)) (network w)) (queue w ! n))"
    by blast
  have world: "flushOnce deliver w = w\<lparr>queue := remaining, network := net\<rparr>"
    using assms(1) by (simp add: flushOnce_def)
  have bound: "n \<le> length (queue w)"
    using assms(2) by simp
  from world bound shape(3) shape(2) shape(4) outcomes(1) failed show ?thesis
    by (intro conjI)
qed

lemma enter_only_posts:
  "postToServer enter_only_server net sample_payload = (True, net @ [Rpc_geofence_log sample_payload])"
  "postToServer enter_only_server net exit_payload = (False, net @ [Rpc_geofence_log exit_payload])"
  by (simp_all add: postToServer_def enter_only_server_def sample_payload_def exit_payload_def)

lemma backlog_flush:
  "flush_records (postToServer enter_only_server) [sample_payload, exit_payload, sample_payload] []
   = ([sample_payload, exit_payload], [exit_payload, sample_payload],
      [Rpc_geofence_log sample_payload, Rpc_geofence_log exit_payload])"
  by (simp add: enter_only_posts)

theorem flushOnce_in_order_until_failure_witness:
  "flush_records (postToServer enter_only_server) [sample_payload, exit_payload, sample_payload] []
     = ([sample_payload, exit_payload], [exit_payload, sample_payload],
        [Rpc_geofence_log sample_payload, Rpc_geofence_log exit_payload])
   \<and> flushOnce (postToServer enter_only_server)
        (fresh_world\<lparr>queue := [sample_payload, exit_payload, sample_payload]\<rparr>)
     = fresh_world\<lparr>queue := [exit_payload, sample_payload],
                    network := [Rpc_geofence_log sample_payload, Rpc_geofence_log exit_payload]\<rparr>
   \<and> fst (postToServer enter_only_server [] sample_payload)
   \<and> \<not> fst (postToServer enter_only_server [Rpc_geofence_log sample_payload] exit_payload)"
proof -
  let ?w = "fresh_world\<lparr>queue := [sample_payload, exit_payload, sample_payload]\<rparr>"
  have run: "flush_records (postToServer enter_only_server) (queue ?w) (network ?w)
     = ([sample_payload, exit_payload], [exit_payload, sample_payload],
        [Rpc_geofence_log sample_payload, Rpc_geofence_log exit_payload])"
    using backlog_flush by (simp add: fresh_world_def)
  have n: "(1::nat) = length (queue ?w) - length [exit_payload, sample_payload]"
    by simp
  from flushOnce_in_order_until_failure [OF run n] backlog_flush show ?thesis
    by (simp add: enter_only_posts fresh_world_def)
qed

subsection \<open>The idempotency key\<close>

lemma digit_char_inj:
  assumes "a < 10" and "b < 10" and "digit_char a = digit_char b"
  shows "a = b"
proof -
  have dom: "n < 10 \<Longrightarrow> n \<in> {0, 1, 2, 3, 4, 5, 6, 7, 8, 9}" for n :: nat
    by auto
  from dom [OF assms(1)] dom [OF assms(2)] assms(3) show ?thesis
    by (auto simp: digit_char_def)
qed

lemma digit_char_plain: "n < 10 \<Longrightarrow> digit_char n \<noteq> CHR ''-'' \<and> digit_char n \<noteq> CHR ''|''"
proof -
  assume "n < 10"
  then have "n \<in> {0, 1, 2, 3, 4, 5, 6, 7, 8, 9}"
    by auto
  then show ?thesis
    by (auto simp: digit_char_def)
qed

lemma nat_text_nonempty: "nat_text n \<noteq> []"
  by (subst nat_text.simps) simp

lemma nat_text_hd: "hd (nat_text n) \<noteq> CHR ''-''"
proof (induction n rule: nat_text.induct)
  case (1 n)
  show ?case
  proof (cases "n < 10")
    case True
    then show ?thesis
      using digit_char_plain [of n] by (simp add: nat_text_small)
  next
    case False
    with 1 nat_text_nonempty [of "n div 10"] show ?thesis
      by (simp add: nat_text_large)
  qed
qed

lemma nat_text_inj: "nat_text m = nat_text n \<Longrightarrow> m = n"
proof (induction m arbitrary: n rule: nat_text.induct)
  case (1 m)
  show ?case
  proof (cases "m < 10")
    case small: True
    show ?thesis
    proof (cases "n < 10")
      case True
      with small "1.prems" show ?thesis
        by (simp add: nat_text_small digit_char_inj)
    next
      case False
      with small "1.prems" nat_text_nonempty [of "n div 10"] show ?thesis
        by (simp add: nat_text_small nat_text_large)
    qed
  next
    case large: False
    show ?thesis
    proof (cases "n < 10")
      case True
      with large "1.prems" nat_text_nonempty [of "m div 10"] show ?thesis
        by (simp add: nat_text_small nat_text_large)
    next
      case False
      with large "1.prems"
      have eq: "nat_text (m div 10) = nat_text (n div 10)" "digit_char (m mod 10) = digit_char (n mod 10)"
        by (simp_all add: nat_text_large)
      from "1.IH" [OF large eq(1)] have "m div 10 = n div 10" .
      moreover from eq(2) have "m mod 10 = n mod 10"
        by (intro digit_char_inj) simp_all
      ultimately show ?thesis
        by (metis div_mult_mod_eq)
    qed
  qed
qed

lemma int_text_inj: "int_text i = int_text j \<Longrightarrow> i = j"
proof -
  assume eq: "int_text i = int_text j"
  have neg: "int_text k = CHR ''-'' # nat_text (nat (- k))" if "k < 0" for k
    using that by (simp add: int_text_def)
  have pos: "int_text k = nat_text (nat k)" if "\<not> k < 0" for k
    using that by (simp add: int_text_def)
  have hd_pos: "hd (int_text k) \<noteq> CHR ''-''" if "\<not> k < 0" for k
    using that nat_text_hd by (simp add: int_text_def)
  show "i = j"
  proof (cases "i < 0")
    case True
    show ?thesis
    proof (cases "j < 0")
      case j: True
      from eq neg [OF True] neg [OF j] have "nat (- i) = nat (- j)"
        by (simp add: nat_text_inj)
      with True j show ?thesis by simp
    next
      case False
      from eq neg [OF True] have "hd (int_text j) = CHR ''-''"
        by (metis list.sel(1))
      with hd_pos [OF False] show ?thesis by simp
    qed
  next
    case False
    show ?thesis
    proof (cases "j < 0")
      case True
      from eq neg [OF True] have "hd (int_text i) = CHR ''-''"
        by (metis list.sel(1))
      with hd_pos [OF False] show ?thesis by simp
    next
      case j: False
      from eq pos [OF False] pos [OF j] have "nat i = nat j"
        by (simp add: nat_text_inj)
      with False j show ?thesis by simp
    qed
  qed
qed

lemma split_at_bar:
  assumes "CHR ''|'' \<notin> set a" and "CHR ''|'' \<notin> set a'"
      and "a @ CHR ''|'' # x = a' @ CHR ''|'' # x'"
  shows "a = a' \<and> x = x'"
  using assms
proof (induction a arbitrary: a')
  case Nil
  then show ?case by (cases a') auto
next
  case (Cons c cs)
  then show ?case by (cases a') auto
qed

lemma region_text_inj:
  "r \<noteq> Some ''null'' \<Longrightarrow> r' \<noteq> Some ''null'' \<Longrightarrow> region_text r = region_text r' \<Longrightarrow> r = r'"
  by (auto simp: region_text_def split: option.splits)

lemma dir_text_no_bar: "CHR ''|'' \<notin> set (dir_text d)"
  by (cases d) simp_all

lemma idem_base_inj:
  assumes "CHR ''|'' \<notin> set e" and "CHR ''|'' \<notin> set e'"
      and "CHR ''|'' \<notin> set (region_text r)" and "CHR ''|'' \<notin> set (region_text r')"
      and "r \<noteq> Some ''null''" and "r' \<noteq> Some ''null''"
      and "Date_parse P t = Some ms" and "Date_parse P t' = Some ms'"
      and "idem_base P e r d t = idem_base P e' r' d' t'"
  shows "e = e' \<and> r = r' \<and> d = d'
       \<and> \<lfloor>real_of_int ms / 1000 / 30\<rfloor> = \<lfloor>real_of_int ms' / 1000 / 30\<rfloor>"
proof -
  let ?s = "slot_text P t" and ?s' = "slot_text P t'"
  from assms(9) have "e @ CHR ''|'' # (region_text r @ CHR ''|'' # dir_text d @ CHR ''|'' # ?s)
      = e' @ CHR ''|'' # (region_text r' @ CHR ''|'' # dir_text d' @ CHR ''|'' # ?s')"
    by (simp add: idem_base_def)
  from split_at_bar [OF assms(1,2) this]
  have e: "e = e'" and rest: "region_text r @ CHR ''|'' # (dir_text d @ CHR ''|'' # ?s)
      = region_text r' @ CHR ''|'' # (dir_text d' @ CHR ''|'' # ?s')"
    by simp_all
  from split_at_bar [OF assms(3,4) rest]
  have r: "region_text r = region_text r'" and rest2: "dir_text d @ CHR ''|'' # ?s = dir_text d' @ CHR ''|'' # ?s'"
    by simp_all
  from split_at_bar [OF dir_text_no_bar dir_text_no_bar rest2]
  have d: "dir_text d = dir_text d'" and s: "?s = ?s'"
    by simp_all
  from s assms(7,8) have "\<lfloor>real_of_int ms / 1000 / 30\<rfloor> = \<lfloor>real_of_int ms' / 1000 / 30\<rfloor>"
    by (simp add: slot_text_def DEBOUNCE_SEC_def int_text_inj)
  with e region_text_inj [OF assms(5,6) r] d show ?thesis
    by (simp add: dir_text_inj)
qed

text \<open>
  C4, as stated, at concrete inputs: calls that differ in \<open>regionId\<close>, or in \<open>eventId\<close>
  and \<open>regionId\<close>, and that the claim says have different keys, have the same key. An
  absent \<open>regionId\<close> and the identifier \<open>null\<close> are printed alike, and a bar inside an
  argument moves the border between \<open>eventId\<close> and \<open>regionId\<close>. The keys are the
  SHA-256 digests of \<open>E1|null|ENTER|57857520\<close> and of \<open>E1|x|y|ENTER|57857520\<close>.
\<close>

theorem makeIdem_collapse_counterexample:
  "makeIdem sample_runtime ''E1'' None ENTER ''2025-01-01T10:00:00.000Z''
     = ''6237c2bbf43d849546c2e7ba9cb23d3d205667760a575697ae2b4d15c9b22b71''
   \<and> makeIdem sample_runtime ''E1'' (Some ''null'') ENTER ''2025-01-01T10:00:00.000Z''
     = ''6237c2bbf43d849546c2e7ba9cb23d3d205667760a575697ae2b4d15c9b22b71''
   \<and> makeIdem sample_runtime ''E1|x'' (Some ''y'') ENTER ''2025-01-01T10:00:00.000Z''
     = ''c89ec44e3b25f5e8de3142d904d0ccdc17e1d4d5c9b8cd8899e1a4e0ca1957e5''
   \<and> makeIdem sample_runtime ''E1'' (Some ''x|y'') ENTER ''2025-01-01T10:00:00.000Z''
     = ''c89ec44e3b25f5e8de3142d904d0ccdc17e1d4d5c9b8cd8899e1a4e0ca1957e5''"
proof -
  have "slot_text sample_runtime ''2025-01-01T10:00:00.000Z'' = ''57857520''"
    by (simp add: slot_text_def sample_runtime_def DEBOUNCE_SEC_def int_text_def
        nat_text_small nat_text_large digit_char_def)
  then show ?thesis
    by (simp add: makeIdem_def idem_base_def region_text_def sample_runtime_def)
qed

text \<open>
  C4, amended. The key is the digest of the text \<open>eventId|regionId|dir|slot\<close>, where
  an absent \<open>regionId\<close> is printed \<open>null\<close> and the slot is
  \<open>floor(unixTimeSeconds / 30)\<close>. Two calls with the same \<open>eventId\<close>,
  \<open>regionId\<close> and direction whose instants fall in the same slot yield the same key.
  When neither \<open>eventId\<close> nor \<open>regionId\<close> contains a bar and \<open>regionId\<close> is not
  the string \<open>null\<close>, calls whose slots differ, or that differ in another argument,
  hash different texts; their keys differ whenever the digest does not collide on these
  two texts.
\<close>

theorem makeIdem_key_of_slot:
  assumes "Date_parse P t1 = Some ms1" and "Date_parse P t2 = Some ms2"
  shows
    "(\<lfloor>real_of_int ms1 / 1000 / 30\<rfloor> = \<lfloor>real_of_int ms2 / 1000 / 30\<rfloor> \<longrightarrow>
        makeIdem P e r d t1 = makeIdem P e r d t2)
     \<and> (CHR ''|'' \<notin> set e \<and> CHR ''|'' \<notin> set e'
          \<and> CHR ''|'' \<notin> set (region_text r) \<and> CHR ''|'' \<notin> set (region_text r')
          \<and> r \<noteq> Some ''null'' \<and> r' \<noteq> Some ''null''
          \<and> (e \<noteq> e' \<or> r \<noteq> r' \<or> d \<noteq> d'
              \<or> \<lfloor>real_of_int ms1 / 1000 / 30\<rfloor> \<noteq> \<lfloor>real_of_int ms2 / 1000 / 30\<rfloor>) \<longrightarrow>
        idem_base P e r d t1 \<noteq> idem_base P e' r' d' t2
        \<and> (collision_free P (idem_base P e r d t1) (idem_base P e' r' d' t2) \<longrightarrow>
             makeIdem P e r d t1 \<noteq> makeIdem P e' r' d' t2))"
proof (intro conjI impI)
  assume "\<lfloor>real_of_int ms1 / 1000 / 30\<rfloor> = \<lfloor>real_of_int ms2 / 1000 / 30\<rfloor>"
  with assms have "slot_text P t1 = slot_text P t2"
    by (simp add: slot_text_def DEBOUNCE_SEC_def)
  then show "makeIdem P e r d t1 = makeIdem P e r d t2"
    by (simp add: makeIdem_def idem_base_def)
next
  assume h: "CHR ''|'' \<notin> set e \<and> CHR ''|'' \<notin> set e'
          \<and> CHR ''|'' \<notin> set (region_text r) \<and> CHR ''|'' \<notin> set (region_text r')
          \<and> r \<noteq> Some ''null'' \<and> r' \<noteq> Some ''null''
          \<and> (e \<noteq> e' \<or> r \<noteq> r' \<or> d \<noteq> d'
              \<or> \<lfloor>real_of_int ms1 / 1000 / 30\<rfloor> \<noteq> \<lfloor>real_of_int ms2 / 1000 / 30\<rfloor>)"
  show texts: "idem_base P e r d t1 \<noteq> idem_base P e' r' d' t2"
  proof
    assume "idem_base P e r d t1 = idem_base P e' r' d' t2"
    with h idem_base_inj [of e e' r r' P t1 ms1 t2 ms2 d d'] assms show False
      by blast
  qed
  assume "collision_free P (idem_base P e r d t1) (idem_base P e' r' d' t2)"
  with texts show "makeIdem P e r d t1 \<noteq> makeIdem P e' r' d' t2"
    by (simp add: collision_free_def makeIdem_def)
qed

lemma sample_instants:
  "Date_parse sample_runtime ''2025-01-01T10:00:00.000Z'' = Some 1735725600000"
  "Date_parse sample_runtime ''2025-01-01T10:00:10.000Z'' = Some 1735725610000"
  by (simp_all add: sample_runtime_def)

lemma sample_texts:
  "idem_base sample_runtime ''E1'' (Some ''event:E1'') ENTER ''2025-01-01T10:00:00.000Z''
     = ''E1|event:E1|ENTER|57857520''"
  "idem_base sample_runtime ''E1'' (Some ''event:E1'') EXIT ''2025-01-01T10:00:00.000Z''
     = ''E1|event:E1|EXIT|57857520''"
proof -
  have "slot_text sample_runtime ''2025-01-01T10:00:00.000Z'' = ''57857520''"
    by (simp add: slot_text_def sample_runtime_def DEBOUNCE_SEC_def int_text_def
        nat_text_small nat_text_large digit_char_def)
  then show
    "idem_base sample_runtime ''E1'' (Some ''event:E1'') ENTER ''2025-01-01T10:00:00.000Z''
       = ''E1|event:E1|ENTER|57857520''"
    "idem_base sample_runtime ''E1'' (Some ''event:E1'') EXIT ''2025-01-01T10:00:00.000Z''
       = ''E1|event:E1|EXIT|57857520''"
    by (simp_all add: idem_base_def region_text_def)
qed

theorem makeIdem_key_of_slot_witness:
  "\<lfloor>real_of_int 1735725600000 / 1000 / 30\<rfloor> = (57857520::int)
   \<and> \<lfloor>real_of_int 1735725610000 / 1000 / 30\<rfloor> = (57857520::int)
   \<and> makeIdem sample_runtime ''E1'' (Some ''event:E1'') ENTER ''2025-01-01T10:00:00.000Z''
     = makeIdem sample_runtime ''E1'' (Some ''event:E1'') ENTER ''2025-01-01T10:00:10.000Z''
   \<and> collision_free sample_runtime ''E1|event:E1|ENTER|57857520'' ''E1|event:E1|EXIT|57857520''
   \<and> makeIdem sample_runtime ''E1'' (Some ''event:E1'') ENTER ''2025-01-01T10:00:00.000Z''
     \<noteq> makeIdem sample_runtime ''E1'' (Some ''event:E1'') EXIT ''2025-01-01T10:00:00.000Z''"
proof -
  have slots: "\<lfloor>real_of_int 1735725600000 / 1000 / 30\<rfloor> = (57857520::int)"
    "\<lfloor>real_of_int 1735725610000 / 1000 / 30\<rfloor> = (57857520::int)"
    by simp_all
  note same = makeIdem_key_of_slot [OF sample_instants(1) sample_instants(2), THEN conjunct1,
      rule_format]
  note other = makeIdem_key_of_slot [OF sample_instants(1) sample_instants(1), THEN conjunct2,
      rule_format]
  from slots have one:
    "makeIdem sample_runtime ''E1'' (Some ''event:E1'') ENTER ''2025-01-01T10:00:00.000Z''
     = makeIdem sample_runtime ''E1'' (Some ''event:E1'') ENTER ''2025-01-01T10:00:10.000Z''"
    by (intro same) simp
  have free: "collision_free sample_runtime ''E1|event:E1|ENTER|57857520''
      ''E1|event:E1|EXIT|57857520''"
    by (simp add: collision_free_def sample_runtime_def)
  have differ: "CHR ''|'' \<notin> set ''E1'' \<and> CHR ''|'' \<notin> set ''E1''
      \<and> CHR ''|'' \<notin> set (region_text (Some ''event:E1''))
      \<and> CHR ''|'' \<notin> set (region_text (Some ''event:E1''))
      \<and> Some ''event:E1'' \<noteq> Some ''null'' \<and> Some ''event:E1'' \<noteq> Some ''null''
      \<and> (''E1'' \<noteq> ''E1'' \<or> Some ''event:E1'' \<noteq> Some ''event:E1'' \<or> ENTER \<noteq> EXIT
          \<or> \<lfloor>real_of_int 1735725600000 / 1000 / 30\<rfloor> \<noteq> \<lfloor>real_of_int 1735725600000 / 1000 / 30\<rfloor>)"
    by (simp add: region_text_def)
  from other [OF differ] free
  have two: "makeIdem sample_runtime ''E1'' (Some ''event:E1'') ENTER ''2025-01-01T10:00:00.000Z''
     \<noteq> makeIdem sample_runtime ''E1'' (Some ''event:E1'') EXIT ''2025-01-01T10:00:00.000Z''"
    by (simp add: sample_texts)
  from slots one free two show ?thesis
    by blast
qed

end
